theory Spec2Isabelle
  imports Main "HOL-Library.Word" "HOL-Library.Sublist" "HOL-Library.Multiset"
begin

section \<open>Data the orchestration in OpenCppCoverage.cpp handles\<close>

text \<open>
  The file under verification is the top-level orchestration of the tool,
  \<^verbatim>\<open>OpenCppCoverage/OpenCppCoverage.cpp\<close>. It parses options, loads input coverage
  snapshots, runs the target under the coverage runner, merges, optionally aggregates by
  file, exports, and reports the exit code. Paths and wide strings are modelled as
  \<^typ>\<open>string\<close>; the C++ \<^verbatim>\<open>int\<close> is a 32-bit word (read as signed by \<open>sint\<close>) and
  \<^verbatim>\<open>size_t\<close> the 64-bit word of the x64 build.
\<close>

type_synonym path = string
type_synonym c_int = "32 word"
type_synonym size_t = "64 word"

text \<open>
  The enumerations are declared in headers of \<^verbatim>\<open>CppCoverage\<close>, outside this file. Their
  values are the ones this file names: \<^verbatim>\<open>Verbose\<close> and \<^verbatim>\<open>Quiet\<close>, with \<^verbatim>\<open>Normal\<close> for the log
  level that the \<^verbatim>\<open>switch\<close> of \<^verbatim>\<open>InitLogger\<close> leaves at its default, and the three export
  types for which \<^verbatim>\<open>Export\<close> registers an exporter.
\<close>

datatype LogLevel = Normal | Verbose | Quiet

datatype OptionsExportType = Html | Cobertura | Binary

record OptionsExport =
  GetType :: OptionsExportType
  GetOutputPath :: "path option"

record StartInfo =
  GetPath :: path
  GetArguments :: "string list"

text \<open>
  The getters of \<^verbatim>\<open>cov::Options\<close> that \<^verbatim>\<open>OpenCppCoverage.cpp\<close> calls. The pattern, diff, regex
  and substitution collections are only passed through to the runner's settings, so their
  contents are kept as plain string lists.
\<close>

record Options =
  GetStartInfo :: "StartInfo option"
  GetExports :: "OptionsExport list"
  GetInputCoveragePaths :: "path list"
  GetLogLevel :: LogLevel
  GetModulePatterns :: "string list"
  GetSourcePatterns :: "string list"
  GetUnifiedDiffSettingsCollection :: "string list"
  GetExcludedLineRegexes :: "string list"
  GetSubstitutePdbSourcePaths :: "string list"
  IsCoverChildrenModeEnabled :: bool
  IsContinueAfterCppExceptionModeEnabled :: bool
  IsOptimizedBuildSupportEnabled :: bool
  IsAggregateByFileModeEnabled :: bool
  IsPlugingModeEnabled :: bool

subsection \<open>The coverage data model\<close>

text \<open>
  Modelled from the spec: the classes of the coverage data model, declared in headers of
  \<^verbatim>\<open>CppCoverage\<close> outside this file. The specification: a run result owns modules, a module
  (with its path) owns files, a file (with its path) owns lines, and a line carries its
  number and whether it was hit. The run result also carries the exit code of the
  instrumented process, which \<^verbatim>\<open>Run\<close> reads with \<^verbatim>\<open>GetExitCode\<close>.
\<close>

record LineCoverage =
  GetLineNumber :: nat
  HasBeenExecuted :: bool

record FileCoverage =
  GetFilePath :: path
  GetLines :: "LineCoverage list"

record ModuleCoverage =
  GetModulePath :: path
  GetFiles :: "FileCoverage list"

record CoverageData =
  GetModules :: "ModuleCoverage list"
  GetExitCode :: c_int

text \<open>
  The settings handed to the coverage runner: the arguments of the constructor call and
  of the four setters in \<^verbatim>\<open>Run\<close>.
\<close>

record RunCoverageSettings =
  SettingsStartInfo :: StartInfo
  SettingsModulePatterns :: "string list"
  SettingsSourcePatterns :: "string list"
  SettingsUnifiedDiffSettingsCollection :: "string list"
  SettingsExcludedLineRegexes :: "string list"
  SettingsSubstitutePdbSourcePaths :: "string list"
  CoverChildren :: bool
  ContinueAfterCppException :: bool
  MaxUnmatchPathsForWarning :: size_t
  OptimizedBuildSupport :: bool

subsection \<open>Effects: the trace of calls, and exceptions as values\<close>

text \<open>
  Everything \<^verbatim>\<open>Run\<close> does to the outside world is a call to a collaborator: the logger,
  the deserializer, the coverage runner, the merger, an exporter, the warning manager,
  the console. The model records each such call, in program order, as an event of a
  trace. The severities are those of the logging macros (\<^verbatim>\<open>LOG_INFO\<close>, \<^verbatim>\<open>LOG_ERROR\<close>) and of
  the minimum severity set by \<^verbatim>\<open>InitLogger\<close>. A log record is the list of items streamed
  into it with \<^verbatim>\<open><<\<close>.
\<close>

datatype Severity = Debug | Info | Warning | Error

datatype LogItem = StrItem string | IntItem c_int

datatype Event =
    EvInitConsoleAndFileLog string
  | EvSetLoggerMinSeverity Severity
  | EvLog Severity "LogItem list"
  | EvDeserialize path string
  | EvRunCoverage RunCoverageSettings
  | EvMerge "CoverageData list"
  | EvMergeFileCoverage CoverageData
  | EvExport OptionsExportType CoverageData path
  | EvDisplayWarnings
  | EvStdout string
  | EvStdinGet

text \<open>
  The two handlers of the top-level \<^verbatim>\<open>Run\<close> distinguish an exception derived from
  \<^verbatim>\<open>std::exception\<close>, which has a \<^verbatim>\<open>what()\<close> text, from any other thrown object.
\<close>

datatype exn = StdException string | OtherException

text \<open>
  A computation yields the events it caused and either the exception that ended it
  (\<open>Inl\<close>) or its value (\<open>Inr\<close>). Sequencing stops at the first exception, keeping the
  events that happened before it.
\<close>

type_synonym 'a comp = "Event list \<times> (exn + 'a)"

definition ret :: "'a \<Rightarrow> 'a comp" where
  "ret x = ([], Inr x)"

definition emit :: "Event \<Rightarrow> unit comp" where
  "emit e = ([e], Inr ())"

definition call :: "Event \<Rightarrow> exn + 'a \<Rightarrow> 'a comp" where
  "call e r = ([e], r)"

definition then_do :: "'a comp \<Rightarrow> ('a \<Rightarrow> 'b comp) \<Rightarrow> 'b comp" where
  "then_do m f =
     (case snd m of
        Inl e \<Rightarrow> (fst m, Inl e)
      | Inr x \<Rightarrow> (fst m @ fst (f x), snd (f x)))"

text \<open>
  The collaborators whose bodies are outside \<^verbatim>\<open>OpenCppCoverage.cpp\<close>. The deserializer, the
  coverage runner, the merger and the exporters may throw, so they return
  \<open>exn + result\<close>. \<^verbatim>\<open>MergeFileCoverage\<close> updates its argument in place; the model returns
  the updated value. \<^verbatim>\<open>FailureExitCode\<close> is the constant of the class declaration in
  \<^verbatim>\<open>OpenCppCoverage.hpp\<close>, \<^verbatim>\<open>ShowOptions\<close> the stream operator of \<^verbatim>\<open>cov::Options\<close>, and
  \<^verbatim>\<open>Parse\<close> the options parser applied to the command line, which reports a failure by
  returning no options. The parser is called outside the \<^verbatim>\<open>try\<close> block: an exception
  leaving it would leave \<^verbatim>\<open>Run\<close> too, and is not part of the model. Logging, the default
  path of an exporter, the display of the warnings and the console are taken not to
  throw.

  \<^verbatim>\<open>PathFilename\<close> and \<^verbatim>\<open>PathReplaceExtension\<close> are the member functions \<^verbatim>\<open>filename()\<close> and
  \<^verbatim>\<open>replace_extension(ext)\<close> of the path class of the filesystem library. They belong to
  the library the program is built with, not to the program, and libraries differ on
  unusual paths (a trailing separator, a drive letter directly followed by a name, a
  name whose only dot is its first character); they are parameters, so that what is
  proved holds for whichever library is used.
\<close>

record Collaborators =
  Parse :: "string list \<Rightarrow> Options option"
  ShowOptions :: "Options \<Rightarrow> string"
  Deserialize :: "path \<Rightarrow> string \<Rightarrow> exn + CoverageData"
  RunCoverage :: "RunCoverageSettings \<Rightarrow> exn + CoverageData"
  Merge :: "CoverageData list \<Rightarrow> exn + CoverageData"
  MergeFileCoverage :: "CoverageData \<Rightarrow> exn + CoverageData"
  ExporterExport :: "OptionsExportType \<Rightarrow> CoverageData \<Rightarrow> path \<Rightarrow> exn + unit"
  GetDefaultPath :: "OptionsExportType \<Rightarrow> string \<Rightarrow> path"
  FailureExitCode :: c_int
  PathFilename :: "path \<Rightarrow> path"
  PathReplaceExtension :: "path \<Rightarrow> string \<Rightarrow> path"

section \<open>The functions of OpenCppCoverage.cpp\<close>

subsection \<open>GetDefaultPathPrefix\<close>

text \<open>
  With a target, the prefix is \<^verbatim>\<open>path.filename().replace_extension("")\<close> for the path of
  the target: the file name of the path, with its extension replaced by nothing.
\<close>

definition GetDefaultPathPrefix :: "Collaborators \<Rightarrow> Options \<Rightarrow> string" where
  "GetDefaultPathPrefix env options =
     (case GetStartInfo options of
        Some startInfo \<Rightarrow> PathReplaceExtension env (PathFilename env (GetPath startInfo)) []
      | None \<Rightarrow> ''CoverageOutput'')"

subsection \<open>Export\<close>

text \<open>
  The exporter map holds one exporter for each of the three export types, so
  \<^verbatim>\<open>exporters.at\<close> always finds one: the exporter is identified by the type. Building the
  three exporters is taken to succeed and has no event. The output of one export is the
  configured path when there is one, the exporter's default path for the prefix
  otherwise.
\<close>

definition ExportOutput :: "Collaborators \<Rightarrow> string \<Rightarrow> OptionsExport \<Rightarrow> path" where
  "ExportOutput env defaultPathPrefix singleExport =
     (case GetOutputPath singleExport of
        Some optionalOutputPath \<Rightarrow> optionalOutputPath
      | None \<Rightarrow> GetDefaultPath env (GetType singleExport) defaultPathPrefix)"

fun ExportLoop ::
  "Collaborators \<Rightarrow> string \<Rightarrow> CoverageData \<Rightarrow> OptionsExport list \<Rightarrow> unit comp" where
  "ExportLoop env defaultPathPrefix coverage [] = ret ()"
| "ExportLoop env defaultPathPrefix coverage (singleExport # exports) =
     then_do
       (call (EvExport (GetType singleExport) coverage
                (ExportOutput env defaultPathPrefix singleExport))
          (ExporterExport env (GetType singleExport) coverage
             (ExportOutput env defaultPathPrefix singleExport)))
       (\<lambda>_. ExportLoop env defaultPathPrefix coverage exports)"

definition Export :: "Collaborators \<Rightarrow> Options \<Rightarrow> CoverageData \<Rightarrow> unit comp" where
  "Export env options coverage =
     ExportLoop env (GetDefaultPathPrefix env options) coverage (GetExports options)"

subsection \<open>LoadInputCoverageDatas\<close>

fun LoadLoop ::
  "Collaborators \<Rightarrow> CoverageData list \<Rightarrow> path list \<Rightarrow> CoverageData list comp" where
  "LoadLoop env coverageDatas [] = ret coverageDatas"
| "LoadLoop env coverageDatas (p # paths) =
     then_do (emit (EvLog Info [StrItem ''Load coverage file: '', StrItem p]))
       (\<lambda>_. then_do
          (call (EvDeserialize p (''Cannot extract coverage data from '' @ p))
             (Deserialize env p (''Cannot extract coverage data from '' @ p)))
          (\<lambda>coverageData. LoadLoop env (coverageDatas @ [coverageData]) paths))"

definition LoadInputCoverageDatas :: "Collaborators \<Rightarrow> Options \<Rightarrow> CoverageData list comp" where
  "LoadInputCoverageDatas env options = LoadLoop env [] (GetInputCoveragePaths options)"

subsection \<open>InitLogger\<close>

definition LoggerMinSeverity :: "LogLevel \<Rightarrow> Severity" where
  "LoggerMinSeverity l = (case l of Verbose \<Rightarrow> Debug | Quiet \<Rightarrow> Error | Normal \<Rightarrow> Info)"

definition InitLogger :: "Options \<Rightarrow> unit comp" where
  "InitLogger options =
     then_do (emit (EvInitConsoleAndFileLog ''LastCoverageResults.log''))
       (\<lambda>_. emit (EvSetLoggerMinSeverity (LoggerMinSeverity (GetLogLevel options))))"

subsection \<open>Run on parsed options\<close>

definition maxUnmatchPathsForWarning :: "Options \<Rightarrow> size_t" where
  "maxUnmatchPathsForWarning options = (if GetLogLevel options = Verbose then - 1 else 30)"

definition MakeRunCoverageSettings :: "Options \<Rightarrow> StartInfo \<Rightarrow> RunCoverageSettings" where
  "MakeRunCoverageSettings options startInfo =
     \<lparr> SettingsStartInfo = startInfo,
       SettingsModulePatterns = GetModulePatterns options,
       SettingsSourcePatterns = GetSourcePatterns options,
       SettingsUnifiedDiffSettingsCollection = GetUnifiedDiffSettingsCollection options,
       SettingsExcludedLineRegexes = GetExcludedLineRegexes options,
       SettingsSubstitutePdbSourcePaths = GetSubstitutePdbSourcePaths options,
       CoverChildren = IsCoverChildrenModeEnabled options,
       ContinueAfterCppException = IsContinueAfterCppExceptionModeEnabled options,
       MaxUnmatchPathsForWarning = maxUnmatchPathsForWarning options,
       OptimizedBuildSupport = IsOptimizedBuildSupportEnabled options \<rparr>"

text \<open>
  The block guarded by \<^verbatim>\<open>if (startInfo)\<close>: it yields the exit code and the list of
  coverage datas after it. Without a target the exit code stays 0 and the list is the
  loaded one.
\<close>

definition RunTarget ::
  "Collaborators \<Rightarrow> Options \<Rightarrow> CoverageData list \<Rightarrow> (c_int \<times> CoverageData list) comp" where
  "RunTarget env options coveraDatas =
     (case GetStartInfo options of
        None \<Rightarrow> ret (0, coveraDatas)
      | Some startInfo \<Rightarrow>
          then_do
            (call (EvRunCoverage (MakeRunCoverageSettings options startInfo))
               (RunCoverage env (MakeRunCoverageSettings options startInfo)))
            (\<lambda>coverageData. ret (GetExitCode coverageData, coveraDatas @ [coverageData])))"

definition Aggregate :: "Collaborators \<Rightarrow> Options \<Rightarrow> CoverageData \<Rightarrow> CoverageData comp" where
  "Aggregate env options coverageData =
     (if IsAggregateByFileModeEnabled options
      then call (EvMergeFileCoverage coverageData) (MergeFileCoverage env coverageData)
      else ret coverageData)"

definition LogExitCode :: "c_int \<Rightarrow> unit comp" where
  "LogExitCode exitCode =
     (if exitCode \<noteq> 0
      then emit (EvLog Error [StrItem ''Your program stop with error code: '', IntItem exitCode])
      else ret ())"

definition Run :: "Collaborators \<Rightarrow> Options \<Rightarrow> c_int comp" where
  "Run env options =
     then_do (InitLogger options) (\<lambda>_.
     then_do (LoadInputCoverageDatas env options) (\<lambda>loaded.
     then_do (emit (EvLog Info [StrItem ''Start Program:'',
                                StrItem (CHR 0x0A # ShowOptions env options)])) (\<lambda>_.
     then_do (RunTarget env options loaded) (\<lambda>(exitCode, coveraDatas).
     then_do (call (EvMerge coveraDatas) (Merge env coveraDatas)) (\<lambda>merged.
     then_do (Aggregate env options merged) (\<lambda>coverageData.
     then_do (Export env options coverageData) (\<lambda>_.
     then_do (LogExitCode exitCode) (\<lambda>_.
     ret exitCode))))))))"

subsection \<open>OpenCppCoverage::Run on the command line\<close>

text \<open>
  The handlers of the \<^verbatim>\<open>try\<close> block: a returned status is kept, an exception is logged as
  an error and leaves \<^verbatim>\<open>status\<close> at its initial value \<^verbatim>\<open>FailureExitCode\<close>.
\<close>

definition Handle :: "Collaborators \<Rightarrow> exn + c_int \<Rightarrow> Event list \<times> c_int" where
  "Handle env r =
     (case r of
        Inr status \<Rightarrow> ([], status)
      | Inl (StdException what) \<Rightarrow>
          ([EvLog Error [StrItem ''Error: '', StrItem what]], FailureExitCode env)
      | Inl OtherException \<Rightarrow>
          ([EvLog Error [StrItem ''Unkown Error'']], FailureExitCode env))"

definition Pause :: "Options \<Rightarrow> Event list" where
  "Pause options =
     (if IsPlugingModeEnabled options
      then [EvStdout ''Press any key to continue... '', EvStdinGet]
      else [])"

definition OpenCppCoverage_Run :: "Collaborators \<Rightarrow> string list \<Rightarrow> Event list \<times> c_int" where
  "OpenCppCoverage_Run env argv =
     (case Parse env argv of
        None \<Rightarrow> ([], FailureExitCode env)
      | Some options \<Rightarrow>
          (fst (Run env options) @ fst (Handle env (snd (Run env options)))
             @ [EvDisplayWarnings] @ Pause options,
           snd (Handle env (snd (Run env options)))))"

section \<open>Reading a trace\<close>

text \<open>
  The properties below are stated on the trace of a run: which targets were launched and
  with which settings, what was logged at a given severity, and to which models
  \<^verbatim>\<open>MergeFileCoverage\<close> was applied.
\<close>

definition Launched :: "Event list \<Rightarrow> RunCoverageSettings list" where
  "Launched t = concat (map (\<lambda>e. case e of EvRunCoverage s \<Rightarrow> [s] | _ \<Rightarrow> []) t)"

definition LoggedAt :: "Severity \<Rightarrow> Event list \<Rightarrow> LogItem list list" where
  "LoggedAt sev t =
     concat (map (\<lambda>e. case e of EvLog s items \<Rightarrow> if s = sev then [items] else [] | _ \<Rightarrow> []) t)"

definition Aggregated :: "Event list \<Rightarrow> CoverageData list" where
  "Aggregated t = concat (map (\<lambda>e. case e of EvMergeFileCoverage d \<Rightarrow> [d] | _ \<Rightarrow> []) t)"

text \<open>The record \<^verbatim>\<open>Run\<close> logs after loading the inputs.\<close>

definition StartLog :: "Collaborators \<Rightarrow> Options \<Rightarrow> Event" where
  "StartLog env options =
     EvLog Info [StrItem ''Start Program:'', StrItem (CHR 0x0A # ShowOptions env options)]"

text \<open>The events of loading every input path: a log record and a deserialization each.\<close>

definition LoadTrace :: "path list \<Rightarrow> Event list" where
  "LoadTrace paths =
     concat (map (\<lambda>p. [EvLog Info [StrItem ''Load coverage file: '', StrItem p],
                          EvDeserialize p (''Cannot extract coverage data from '' @ p)]) paths)"

text \<open>The events of exporting a model to every configured export, in order.\<close>

definition ExportTrace :: "Collaborators \<Rightarrow> Options \<Rightarrow> CoverageData \<Rightarrow> Event list" where
  "ExportTrace env options coverage =
     map (\<lambda>singleExport. EvExport (GetType singleExport) coverage
            (ExportOutput env (GetDefaultPathPrefix env options) singleExport))
       (GetExports options)"

section \<open>The merger, from its specification\<close>

text \<open>
  The hit status of a line in a model: \<open>None\<close> when the model has no such line,
  \<open>Some h\<close> when it has, with \<open>h\<close> telling whether some entry for the line is marked
  executed. Statuses are joined with \<open>osup\<close>: absent is neutral, and a line is hit when
  it is hit on either side.
\<close>

definition osup :: "bool option \<Rightarrow> bool option \<Rightarrow> bool option" where
  "osup a b =
     (case a of None \<Rightarrow> b
      | Some x \<Rightarrow> (case b of None \<Rightarrow> Some x | Some y \<Rightarrow> Some (x \<or> y)))"

fun JoinAll :: "bool option list \<Rightarrow> bool option" where
  "JoinAll [] = None"
| "JoinAll (a # as) = osup a (JoinAll as)"

definition LineStatus :: "LineCoverage \<Rightarrow> nat \<Rightarrow> bool option" where
  "LineStatus l n = (if GetLineNumber l = n then Some (HasBeenExecuted l) else None)"

fun LinesStatus :: "LineCoverage list \<Rightarrow> nat \<Rightarrow> bool option" where
  "LinesStatus [] n = None"
| "LinesStatus (l # ls) n = osup (LineStatus l n) (LinesStatus ls n)"

definition FileStatus :: "FileCoverage \<Rightarrow> path \<Rightarrow> nat \<Rightarrow> bool option" where
  "FileStatus f p n = (if GetFilePath f = p then LinesStatus (GetLines f) n else None)"

fun FilesStatus :: "FileCoverage list \<Rightarrow> path \<Rightarrow> nat \<Rightarrow> bool option" where
  "FilesStatus [] p n = None"
| "FilesStatus (f # fs) p n = osup (FileStatus f p n) (FilesStatus fs p n)"

definition ModuleStatus :: "ModuleCoverage \<Rightarrow> path \<Rightarrow> path \<Rightarrow> nat \<Rightarrow> bool option" where
  "ModuleStatus m mp p n = (if GetModulePath m = mp then FilesStatus (GetFiles m) p n else None)"

fun ModulesStatus :: "ModuleCoverage list \<Rightarrow> path \<Rightarrow> path \<Rightarrow> nat \<Rightarrow> bool option" where
  "ModulesStatus [] mp p n = None"
| "ModulesStatus (m # ms) mp p n = osup (ModuleStatus m mp p n) (ModulesStatus ms mp p n)"

text \<open>The status of line \<open>n\<close> of file \<open>p\<close> of module \<open>mp\<close>.\<close>

definition HitStatus :: "CoverageData \<Rightarrow> path \<Rightarrow> path \<Rightarrow> nat \<Rightarrow> bool option" where
  "HitStatus d mp p n = ModulesStatus (GetModules d) mp p n"

text \<open>The status of line \<open>n\<close> of file \<open>p\<close>, whichever modules reference the file.\<close>

definition AllFiles :: "CoverageData \<Rightarrow> FileCoverage list" where
  "AllFiles d = concat (map GetFiles (GetModules d))"

definition FileLineStatus :: "CoverageData \<Rightarrow> path \<Rightarrow> nat \<Rightarrow> bool option" where
  "FileLineStatus d p n = FilesStatus (AllFiles d) p n"

text \<open>
  Modelled from the spec: the steps of \<^verbatim>\<open>CoverageDataMerger::Merge\<close>, whose source
  (\<^verbatim>\<open>CppCoverage/CoverageDataMerger.cpp\<close>) is not among the files verified here. Adding a
  line, a file or a module to a list merges it into the entry with the same identity
  (line number, file path, module path) when there is one, and appends it otherwise; a
  line of the result is hit if it was hit on either side.
\<close>

fun AddLine :: "LineCoverage \<Rightarrow> LineCoverage list \<Rightarrow> LineCoverage list" where
  "AddLine l [] = [l]"
| "AddLine l (x # xs) =
     (if GetLineNumber x = GetLineNumber l
      then x\<lparr>HasBeenExecuted := HasBeenExecuted x \<or> HasBeenExecuted l\<rparr> # xs
      else x # AddLine l xs)"

fun AddFile :: "FileCoverage \<Rightarrow> FileCoverage list \<Rightarrow> FileCoverage list" where
  "AddFile f [] = [f]"
| "AddFile f (x # xs) =
     (if GetFilePath x = GetFilePath f
      then x\<lparr>GetLines := fold AddLine (GetLines f) (GetLines x)\<rparr> # xs
      else x # AddFile f xs)"

fun AddModule :: "ModuleCoverage \<Rightarrow> ModuleCoverage list \<Rightarrow> ModuleCoverage list" where
  "AddModule m [] = [m]"
| "AddModule m (x # xs) =
     (if GetModulePath x = GetModulePath m
      then x\<lparr>GetFiles := fold AddFile (GetFiles m) (GetFiles x)\<rparr> # xs
      else x # AddModule m xs)"

text \<open>
  Modelled from the spec: \<^verbatim>\<open>CoverageDataMerger::Merge\<close>, defined in
  \<^verbatim>\<open>CppCoverage/CoverageDataMerger.cpp\<close>, of which \<^verbatim>\<open>OpenCppCoverage.cpp\<close> has only the call. The
  specification: it consumes a sequence of run results and produces one combined
  result, under the rule that, per (module, file, line) identity, a line is hit if it is
  hit in any input. The model adds the modules of the inputs, one input after the other,
  to an empty result. The specification gives no rule for the exit code of the combined
  result and \<^verbatim>\<open>Run\<close> does not read it; the model sets it to 0.
\<close>

definition CoverageDataMerger_Merge :: "CoverageData list \<Rightarrow> CoverageData" where
  "CoverageDataMerger_Merge coverageDatas =
     \<lparr> GetModules = fold (\<lambda>d acc. fold AddModule (GetModules d) acc) coverageDatas [],
       GetExitCode = 0 \<rparr>"

text \<open>
  Modelled from the spec: the aggregated lines of a file, for
  \<^verbatim>\<open>CoverageDataMerger::MergeFileCoverage\<close>: the lines of all entries of the file, merged
  as \<^verbatim>\<open>Merge\<close> merges lines.
\<close>

definition AggregatedLines :: "FileCoverage list \<Rightarrow> path \<Rightarrow> LineCoverage list" where
  "AggregatedLines files p =
     fold (\<lambda>f acc. if GetFilePath f = p then fold AddLine (GetLines f) acc else acc) files []"

text \<open>
  Modelled from the spec: the steps of \<^verbatim>\<open>CoverageDataMerger::MergeFileCoverage\<close>. The
  specification of the data model: a single physical file may be referenced by
  multiple modules, and the merger collapses these into one logical file when
  aggregation is requested. Going through the modules in order, the first entry of a
  file is kept, with the aggregated lines of all entries of the file, and every later
  entry of the file, in the same or in another module, is dropped. A module whose
  entries have all been collapsed into earlier modules is dropped with them.
\<close>

fun CollapseFiles ::
  "FileCoverage list \<Rightarrow> path list \<Rightarrow> FileCoverage list \<Rightarrow> FileCoverage list" where
  "CollapseFiles allFiles seen [] = []"
| "CollapseFiles allFiles seen (f # fs) =
     (if GetFilePath f \<in> set seen then CollapseFiles allFiles seen fs
      else f\<lparr>GetLines := AggregatedLines allFiles (GetFilePath f)\<rparr>
           # CollapseFiles allFiles (GetFilePath f # seen) fs)"

fun CollapseModules ::
  "FileCoverage list \<Rightarrow> path list \<Rightarrow> ModuleCoverage list \<Rightarrow> ModuleCoverage list" where
  "CollapseModules allFiles seen [] = []"
| "CollapseModules allFiles seen (m # ms) =
     (if GetFiles m \<noteq> [] \<and> CollapseFiles allFiles seen (GetFiles m) = []
      then CollapseModules allFiles (map GetFilePath (GetFiles m) @ seen) ms
      else m\<lparr>GetFiles := CollapseFiles allFiles seen (GetFiles m)\<rparr>
           # CollapseModules allFiles (map GetFilePath (GetFiles m) @ seen) ms)"

text \<open>
  Modelled from the spec: \<^verbatim>\<open>CoverageDataMerger::MergeFileCoverage\<close>, defined in
  \<^verbatim>\<open>CppCoverage/CoverageDataMerger.cpp\<close>, of which \<^verbatim>\<open>OpenCppCoverage.cpp\<close> has only the call, on
  the merged model and in place. The specification: entries of distinct modules that
  reference the same canonical file are collapsed into one aggregated per-file view; it
  is a view transformation that does not alter the underlying hit data, only its grouping
  for export. The identity of a file is its canonical path, every line belongs to one
  file, and a line is hit if it is hit in any entry. The model collapses the entries of
  every file into one entry, which carries the aggregated lines of the file.
\<close>

definition CoverageDataMerger_MergeFileCoverage :: "CoverageData \<Rightarrow> CoverageData" where
  "CoverageDataMerger_MergeFileCoverage d =
     d\<lparr>GetModules := CollapseModules (AllFiles d) [] (GetModules d)\<rparr>"

section \<open>A concrete configuration\<close>

text \<open>
  Concrete collaborators, options and run results, on which the theorems are
  instantiated. The parser takes the target path first (empty for none) and the input
  coverage paths after it, the input \<^verbatim>\<open>bad.cov\<close> cannot be deserialized, and the target
  exits with code 3.
\<close>

definition ex_coverage :: "c_int \<Rightarrow> CoverageData" where
  "ex_coverage code =
     \<lparr> GetModules =
         [\<lparr> GetModulePath = ''Test.exe'',
            GetFiles =
              [\<lparr> GetFilePath = ''main.cpp'',
                 GetLines = [\<lparr> GetLineNumber = 1, HasBeenExecuted = True \<rparr>,
                             \<lparr> GetLineNumber = 2, HasBeenExecuted = False \<rparr>] \<rparr>] \<rparr>],
       GetExitCode = code \<rparr>"

definition ex_other :: CoverageData where
  "ex_other =
     \<lparr> GetModules =
         [\<lparr> GetModulePath = ''Lib.dll'',
            GetFiles =
              [\<lparr> GetFilePath = ''main.cpp'',
                 GetLines = [\<lparr> GetLineNumber = 2, HasBeenExecuted = True \<rparr>,
                             \<lparr> GetLineNumber = 3, HasBeenExecuted = False \<rparr>] \<rparr>] \<rparr>,
          \<lparr> GetModulePath = ''Test.exe'',
            GetFiles =
              [\<lparr> GetFilePath = ''main.cpp'',
                 GetLines = [\<lparr> GetLineNumber = 2, HasBeenExecuted = True \<rparr>] \<rparr>] \<rparr>],
       GetExitCode = 0 \<rparr>"

definition ex_options :: "StartInfo option \<Rightarrow> path list \<Rightarrow> Options" where
  "ex_options startInfo inputs =
     \<lparr> GetStartInfo = startInfo,
       GetExports = [\<lparr> GetType = Html, GetOutputPath = None \<rparr>,
                     \<lparr> GetType = Binary, GetOutputPath = Some ''out.cov'' \<rparr>],
       GetInputCoveragePaths = inputs,
       GetLogLevel = Normal,
       GetModulePatterns = [],
       GetSourcePatterns = [],
       GetUnifiedDiffSettingsCollection = [],
       GetExcludedLineRegexes = [],
       GetSubstitutePdbSourcePaths = [],
       IsCoverChildrenModeEnabled = False,
       IsContinueAfterCppExceptionModeEnabled = False,
       IsOptimizedBuildSupportEnabled = False,
       IsAggregateByFileModeEnabled = True,
       IsPlugingModeEnabled = False \<rparr>"

definition ex_target :: "path \<Rightarrow> StartInfo" where
  "ex_target p = \<lparr> GetPath = p, GetArguments = [] \<rparr>"

definition ex_parse :: "string list \<Rightarrow> Options option" where
  "ex_parse argv =
     (case argv of
        [] \<Rightarrow> None
      | target # inputs \<Rightarrow>
          Some (ex_options (if target = [] then None else Some (ex_target target)) inputs))"

definition ex_merge :: "CoverageData list \<Rightarrow> CoverageData" where
  "ex_merge ds = \<lparr> GetModules = concat (map GetModules ds), GetExitCode = 0 \<rparr>"

definition ex_default_path :: "OptionsExportType \<Rightarrow> string \<Rightarrow> path" where
  "ex_default_path ty pre =
     (case ty of
        Html \<Rightarrow> ''CoverageReport-'' @ pre
      | Cobertura \<Rightarrow> pre @ ''Coverage.xml''
      | Binary \<Rightarrow> pre @ ''.cov'')"

text \<open>
  The two path functions of the concrete configuration are given only where every
  filesystem library agrees: the file name of \<^verbatim>\<open>C:/dev/Test.exe\<close> is \<^verbatim>\<open>Test.exe\<close>, and
  \<^verbatim>\<open>Test.exe\<close> without its extension is \<^verbatim>\<open>Test\<close>. Elsewhere they return their argument.
\<close>

definition ex_filename :: "path \<Rightarrow> path" where
  "ex_filename p = (if p = ''C:/dev/Test.exe'' then ''Test.exe'' else p)"

definition ex_replace_extension :: "path \<Rightarrow> string \<Rightarrow> path" where
  "ex_replace_extension p ext = (if p = ''Test.exe'' \<and> ext = [] then ''Test'' else p)"

definition ex_env :: Collaborators where
  "ex_env =
     \<lparr> Parse = ex_parse,
       ShowOptions = (\<lambda>options. ''options''),
       Deserialize =
         (\<lambda>p msg. if p = ''bad.cov'' then Inl (StdException msg) else Inr (ex_coverage 0)),
       RunCoverage = (\<lambda>settings. Inr (ex_coverage 3)),
       Merge = (\<lambda>ds. Inr (ex_merge ds)),
       MergeFileCoverage = (\<lambda>d. Inr d),
       ExporterExport = (\<lambda>ty d p. Inr ()),
       GetDefaultPath = ex_default_path,
       FailureExitCode = 1,
       PathFilename = ex_filename,
       PathReplaceExtension = ex_replace_extension \<rparr>"

text \<open>
  A run with a target and one input coverage file: the command line, the options parsed
  from it, and the trace of the whole run.
\<close>

definition ex_argv :: "string list" where
  "ex_argv = [''C:/dev/Test.exe'', ''a.cov'']"

definition ex_run_options :: Options where
  "ex_run_options = ex_options (Some (ex_target ''C:/dev/Test.exe'')) [''a.cov'']"

definition ex_run_trace :: "Event list" where
  "ex_run_trace =
     [EvInitConsoleAndFileLog ''LastCoverageResults.log'',
      EvSetLoggerMinSeverity Info,
      EvLog Info [StrItem ''Load coverage file: '', StrItem ''a.cov''],
      EvDeserialize ''a.cov'' ''Cannot extract coverage data from a.cov'',
      EvLog Info [StrItem ''Start Program:'', StrItem (CHR 0x0A # ''options'')],
      EvRunCoverage (MakeRunCoverageSettings ex_run_options (ex_target ''C:/dev/Test.exe'')),
      EvMerge [ex_coverage 0, ex_coverage 3],
      EvMergeFileCoverage (ex_merge [ex_coverage 0, ex_coverage 3]),
      EvExport Html (ex_merge [ex_coverage 0, ex_coverage 3]) ''CoverageReport-Test'',
      EvExport Binary (ex_merge [ex_coverage 0, ex_coverage 3]) ''out.cov'',
      EvLog Error [StrItem ''Your program stop with error code: '', IntItem 3],
      EvDisplayWarnings]"

text \<open>A run in merge-only mode: no target, two input coverage files.\<close>

definition ex_merge_argv :: "string list" where
  "ex_merge_argv = [[], ''a.cov'', ''b.cov'']"

definition ex_merge_options :: Options where
  "ex_merge_options = ex_options None [''a.cov'', ''b.cov'']"

text \<open>A run in merge-only mode whose second input cannot be deserialized.\<close>

definition ex_corrupt_argv :: "string list" where
  "ex_corrupt_argv = [[], ''a.cov'', ''bad.cov'', ''c.cov'']"

text \<open>
  The concrete collaborators with the model of \<^verbatim>\<open>MergeFileCoverage\<close> as the merger's
  aggregation, and the aggregation of the merged model of the concrete run.
\<close>

definition ex_aggregating_env :: Collaborators where
  "ex_aggregating_env =
     ex_env\<lparr>MergeFileCoverage := (\<lambda>d. Inr (CoverageDataMerger_MergeFileCoverage d))\<rparr>"

definition ex_aggregated :: CoverageData where
  "ex_aggregated =
     \<lparr> GetModules =
         [\<lparr> GetModulePath = ''Test.exe'',
            GetFiles =
              [\<lparr> GetFilePath = ''main.cpp'',
                 GetLines = [\<lparr> GetLineNumber = 1, HasBeenExecuted = True \<rparr>,
                             \<lparr> GetLineNumber = 2, HasBeenExecuted = False \<rparr>] \<rparr>] \<rparr>],
       GetExitCode = 0 \<rparr>"

section \<open>Sequencing and the trace\<close>

lemma then_do_Inl [simp]: "then_do (t, Inl e) f = (t, Inl e)"
  by (simp add: then_do_def)

lemma then_do_Inr [simp]: "then_do (t, Inr x) f = (t @ fst (f x), snd (f x))"
  by (simp add: then_do_def)

lemma then_do_ret [simp]: "then_do (ret x) f = f x"
  by (simp add: ret_def)

lemma then_do_emit [simp]: "then_do (emit e) f = (e # fst (f ()), snd (f ()))"
  by (simp add: emit_def)

lemma fst_then_do:
  "fst (then_do m f) = (case snd m of Inl e \<Rightarrow> fst m | Inr x \<Rightarrow> fst m @ fst (f x))"
  by (simp add: then_do_def split: sum.splits)

lemma snd_then_do:
  "snd (then_do m f) = (case snd m of Inl e \<Rightarrow> Inl e | Inr x \<Rightarrow> snd (f x))"
  by (simp add: then_do_def split: sum.splits)

lemma Launched_simps [simp]:
  "Launched [] = []"
  "Launched (t @ t') = Launched t @ Launched t'"
  "Launched (EvRunCoverage s # t) = s # Launched t"
  "Launched (EvInitConsoleAndFileLog n # t) = Launched t"
  "Launched (EvSetLoggerMinSeverity sev # t) = Launched t"
  "Launched (EvLog sev items # t) = Launched t"
  "Launched (EvDeserialize p m # t) = Launched t"
  "Launched (EvMerge ds # t) = Launched t"
  "Launched (EvMergeFileCoverage d # t) = Launched t"
  "Launched (EvExport ty d p # t) = Launched t"
  "Launched (EvDisplayWarnings # t) = Launched t"
  "Launched (EvStdout n # t) = Launched t"
  "Launched (EvStdinGet # t) = Launched t"
  by (simp_all add: Launched_def)

lemma LoggedAt_simps [simp]:
  "LoggedAt sev [] = []"
  "LoggedAt sev (t @ t') = LoggedAt sev t @ LoggedAt sev t'"
  "LoggedAt sev (EvLog s items # t) = (if s = sev then items # LoggedAt sev t else LoggedAt sev t)"
  "LoggedAt sev (EvRunCoverage st # t) = LoggedAt sev t"
  "LoggedAt sev (EvInitConsoleAndFileLog n # t) = LoggedAt sev t"
  "LoggedAt sev (EvSetLoggerMinSeverity sv # t) = LoggedAt sev t"
  "LoggedAt sev (EvDeserialize p m # t) = LoggedAt sev t"
  "LoggedAt sev (EvMerge ds # t) = LoggedAt sev t"
  "LoggedAt sev (EvMergeFileCoverage d # t) = LoggedAt sev t"
  "LoggedAt sev (EvExport ty d p # t) = LoggedAt sev t"
  "LoggedAt sev (EvDisplayWarnings # t) = LoggedAt sev t"
  "LoggedAt sev (EvStdout n # t) = LoggedAt sev t"
  "LoggedAt sev (EvStdinGet # t) = LoggedAt sev t"
  by (simp_all add: LoggedAt_def)

lemma Aggregated_simps [simp]:
  "Aggregated [] = []"
  "Aggregated (t @ t') = Aggregated t @ Aggregated t'"
  "Aggregated (EvMergeFileCoverage d # t) = d # Aggregated t"
  "Aggregated (EvLog s items # t) = Aggregated t"
  "Aggregated (EvRunCoverage st # t) = Aggregated t"
  "Aggregated (EvInitConsoleAndFileLog n # t) = Aggregated t"
  "Aggregated (EvSetLoggerMinSeverity sv # t) = Aggregated t"
  "Aggregated (EvDeserialize p m # t) = Aggregated t"
  "Aggregated (EvMerge ds # t) = Aggregated t"
  "Aggregated (EvExport ty d p # t) = Aggregated t"
  "Aggregated (EvDisplayWarnings # t) = Aggregated t"
  "Aggregated (EvStdout n # t) = Aggregated t"
  "Aggregated (EvStdinGet # t) = Aggregated t"
  by (simp_all add: Aggregated_def)

subsection \<open>The steps of Run\<close>

lemma InitLogger_eq:
  "InitLogger options =
     ([EvInitConsoleAndFileLog ''LastCoverageResults.log'',
       EvSetLoggerMinSeverity (LoggerMinSeverity (GetLogLevel options))], Inr ())"
  by (simp add: InitLogger_def emit_def)

lemma ExportLoop_prefix:
  "prefix (fst (ExportLoop env pre coverage exports))
     (map (\<lambda>singleExport. EvExport (GetType singleExport) coverage (ExportOutput env pre singleExport))
        exports)"
  by (induction exports) (simp_all add: ret_def call_def fst_then_do split: sum.splits)

lemma ExportLoop_success:
  "snd (ExportLoop env pre coverage exports) = Inr u \<Longrightarrow>
   fst (ExportLoop env pre coverage exports) =
     map (\<lambda>singleExport. EvExport (GetType singleExport) coverage (ExportOutput env pre singleExport))
       exports"
  by (induction exports)
    (simp_all add: ret_def call_def fst_then_do snd_then_do split: sum.splits)

lemma ExportLoop_Launched [simp]: "Launched (fst (ExportLoop env pre coverage exports)) = []"
  by (induction exports) (simp_all add: ret_def call_def fst_then_do split: sum.splits)

lemma ExportLoop_LoggedAt [simp]: "LoggedAt sev (fst (ExportLoop env pre coverage exports)) = []"
  by (induction exports) (simp_all add: ret_def call_def fst_then_do split: sum.splits)

lemma ExportLoop_Aggregated [simp]: "Aggregated (fst (ExportLoop env pre coverage exports)) = []"
  by (induction exports) (simp_all add: ret_def call_def fst_then_do split: sum.splits)

lemma Export_success:
  "snd (Export env options coverage) = Inr u \<Longrightarrow>
   fst (Export env options coverage) = ExportTrace env options coverage"
  by (simp add: Export_def ExportTrace_def ExportLoop_success)

lemma LoadLoop_success:
  "map (\<lambda>p. Deserialize env p (''Cannot extract coverage data from '' @ p)) paths = map Inr datas
   \<Longrightarrow> LoadLoop env acc paths = (LoadTrace paths, Inr (acc @ datas))"
proof (induction paths arbitrary: acc datas)
  case Nil
  then show ?case by (simp add: ret_def LoadTrace_def)
next
  case (Cons p paths)
  then obtain d ds where datas: "datas = d # ds" by (cases datas) auto
  with Cons.prems
  have d: "Deserialize env p (''Cannot extract coverage data from '' @ p) = Inr d"
    and ds: "map (\<lambda>p. Deserialize env p (''Cannot extract coverage data from '' @ p)) paths
               = map Inr ds"
    by simp_all
  from Cons.IH [OF ds, of "acc @ [d]"] d datas show ?case
    by (simp add: call_def LoadTrace_def)
qed

lemma LoadLoop_Launched [simp]: "Launched (fst (LoadLoop env acc paths)) = []"
  by (induction paths arbitrary: acc) (simp_all add: ret_def call_def fst_then_do split: sum.splits)

lemma LoadLoop_Aggregated [simp]: "Aggregated (fst (LoadLoop env acc paths)) = []"
  by (induction paths arbitrary: acc) (simp_all add: ret_def call_def fst_then_do split: sum.splits)

lemma LoadLoop_LoggedAt [simp]:
  "sev \<noteq> Info \<Longrightarrow> LoggedAt sev (fst (LoadLoop env acc paths)) = []"
  by (induction paths arbitrary: acc) (simp_all add: ret_def call_def fst_then_do split: sum.splits)

lemma LoadTrace_Launched [simp]: "Launched (LoadTrace paths) = []"
  by (induction paths) (simp_all add: LoadTrace_def)

lemma LoadTrace_LoggedAt [simp]: "sev \<noteq> Info \<Longrightarrow> LoggedAt sev (LoadTrace paths) = []"
  by (induction paths) (simp_all add: LoadTrace_def)

lemma LoadTrace_Aggregated [simp]: "Aggregated (LoadTrace paths) = []"
  by (induction paths) (simp_all add: LoadTrace_def)

lemma Aggregate_Launched [simp]: "Launched (fst (Aggregate env options d)) = []"
  by (simp add: Aggregate_def call_def ret_def)

lemma Aggregate_LoggedAt [simp]: "LoggedAt sev (fst (Aggregate env options d)) = []"
  by (simp add: Aggregate_def call_def ret_def)

lemma Aggregate_Aggregated:
  "Aggregated (fst (Aggregate env options d)) =
     (if IsAggregateByFileModeEnabled options then [d] else [])"
  by (simp add: Aggregate_def call_def ret_def)

lemma Pause_Launched [simp]: "Launched (Pause options) = []"
  by (simp add: Pause_def)

lemma Pause_LoggedAt [simp]: "LoggedAt sev (Pause options) = []"
  by (simp add: Pause_def)

lemma RunTarget_Launched:
  "Launched (fst (RunTarget env options loaded)) =
     (case GetStartInfo options of
        None \<Rightarrow> []
      | Some startInfo \<Rightarrow> [MakeRunCoverageSettings options startInfo])"
  by (simp add: RunTarget_def call_def ret_def fst_then_do split: option.splits sum.splits)

lemma RunTarget_LoggedAt [simp]: "LoggedAt sev (fst (RunTarget env options loaded)) = []"
  by (simp add: RunTarget_def call_def ret_def fst_then_do split: option.splits sum.splits)

lemma RunTarget_Aggregated [simp]: "Aggregated (fst (RunTarget env options loaded)) = []"
  by (simp add: RunTarget_def call_def ret_def fst_then_do split: option.splits sum.splits)

lemma RunTarget_target:
  "GetStartInfo options = Some startInfo \<Longrightarrow>
   RunCoverage env (MakeRunCoverageSettings options startInfo) = Inr target \<Longrightarrow>
   RunTarget env options loaded =
     ([EvRunCoverage (MakeRunCoverageSettings options startInfo)],
      Inr (GetExitCode target, loaded @ [target]))"
  by (simp add: RunTarget_def call_def ret_def)

lemma RunTarget_no_target:
  "GetStartInfo options = None \<Longrightarrow> RunTarget env options loaded = ([], Inr (0, loaded))"
  by (simp add: RunTarget_def ret_def)

lemma Run_steps:
  assumes "LoadInputCoverageDatas env options = (t1, Inr loaded)"
    and "RunTarget env options loaded = (t2, Inr (exitCode, coveraDatas))"
    and "Merge env coveraDatas = Inr merged"
    and "Aggregate env options merged = (t3, Inr coverageData)"
  shows "fst (Run env options) =
           fst (InitLogger options) @ t1 @ [StartLog env options] @ t2 @ [EvMerge coveraDatas] @ t3
           @ fst (Export env options coverageData)
           @ (case snd (Export env options coverageData) of
                Inl e \<Rightarrow> [] | Inr u \<Rightarrow> fst (LogExitCode exitCode))"
    and "snd (Run env options) =
           (case snd (Export env options coverageData) of
              Inl e \<Rightarrow> Inl e | Inr u \<Rightarrow> Inr exitCode)"
  using assms
  by (simp_all add: Run_def InitLogger_eq StartLog_def call_def fst_then_do snd_then_do
      LogExitCode_def ret_def emit_def split: sum.splits)

lemma Run_Launched:
  "set (Launched (fst (Run env options))) \<subseteq>
     (case GetStartInfo options of
        None \<Rightarrow> {}
      | Some startInfo \<Rightarrow> {MakeRunCoverageSettings options startInfo})"
proof -
  have "set (Launched (fst (RunTarget env options loaded))) \<subseteq>
     (case GetStartInfo options of
        None \<Rightarrow> {}
      | Some startInfo \<Rightarrow> {MakeRunCoverageSettings options startInfo})"
    for loaded
    by (simp add: RunTarget_Launched split: option.splits)
  then show ?thesis
    by (simp add: Run_def InitLogger_eq fst_then_do LoadInputCoverageDatas_def call_def Export_def
        LogExitCode_def ret_def emit_def split: sum.splits prod.splits)
qed

lemma Run_LoggedAt_Warning: "LoggedAt Warning (fst (Run env options)) = []"
  by (simp add: Run_def InitLogger_eq fst_then_do LoadInputCoverageDatas_def call_def Export_def
      LogExitCode_def ret_def emit_def split: sum.splits prod.splits)

lemma Run_Aggregated_flag:
  "Aggregated (fst (Run env options)) \<noteq> [] \<Longrightarrow> IsAggregateByFileModeEnabled options"
  by (simp add: Run_def InitLogger_eq fst_then_do LoadInputCoverageDatas_def call_def Export_def
      LogExitCode_def ret_def emit_def Aggregate_Aggregated
      split: sum.splits prod.splits if_splits)

lemma snd_Handle_Inl: "snd (Handle env (Inl e)) = FailureExitCode env"
  by (cases e) (simp_all add: Handle_def)

lemma fst_Handle_Inl:
  "fst (Handle env (Inl e)) =
     [EvLog Error (case e of StdException what \<Rightarrow> [StrItem ''Error: '', StrItem what]
                   | OtherException \<Rightarrow> [StrItem ''Unkown Error''])]"
  by (cases e) (simp_all add: Handle_def)

lemma unat_size_t_max: "unat (- 1 :: size_t) = 18446744073709551615"
  by (simp add: unsigned_minus_1_eq_mask mask_eq_exp_minus_1)

lemmas ex_defs = ex_env_def ex_parse_def ex_options_def ex_target_def ex_coverage_def
  ex_merge_def ex_default_path_def ex_filename_def ex_replace_extension_def

lemmas run_defs = OpenCppCoverage_Run_def Run_def InitLogger_eq LoadInputCoverageDatas_def
  RunTarget_def Aggregate_def Export_def LogExitCode_def Handle_def Pause_def
  MakeRunCoverageSettings_def maxUnmatchPathsForWarning_def LoggerMinSeverity_def
  GetDefaultPathPrefix_def ExportOutput_def call_def ret_def emit_def StartLog_def
  LoadTrace_def ExportTrace_def

lemma LogExitCode_LoggedAt_Error:
  "LoggedAt Error (fst (LogExitCode exitCode)) =
     (if exitCode = 0 then []
      else [[StrItem ''Your program stop with error code: '', IntItem exitCode]])"
  by (simp add: LogExitCode_def emit_def ret_def)

lemma LoadInputCoverageDatas_LoggedAt:
  "LoadInputCoverageDatas env options = (t1, r) \<Longrightarrow> sev \<noteq> Info \<Longrightarrow> LoggedAt sev t1 = []"
  using LoadLoop_LoggedAt [of sev env "[]" "GetInputCoveragePaths options"]
  by (simp add: LoadInputCoverageDatas_def)

lemma Aggregate_LoggedAt': "Aggregate env options d = (t3, r) \<Longrightarrow> LoggedAt sev t3 = []"
  using Aggregate_LoggedAt [of sev env options d] by simp

lemma ExportTrace_LoggedAt [simp]: "LoggedAt sev (ExportTrace env options d) = []"
proof -
  have "LoggedAt sev (map (\<lambda>x. EvExport (GetType x) d (f x)) xs) = []" for f xs
    by (induction xs) simp_all
  then show ?thesis by (simp add: ExportTrace_def)
qed

lemma ExportTrace_Launched [simp]: "Launched (ExportTrace env options d) = []"
proof -
  have "Launched (map (\<lambda>x. EvExport (GetType x) d (f x)) xs) = []" for f xs
    by (induction xs) simp_all
  then show ?thesis by (simp add: ExportTrace_def)
qed

subsection \<open>The concrete run, step by step\<close>

lemma ex_Parse: "Parse ex_env ex_argv = Some ex_run_options"
  by (simp add: ex_argv_def ex_run_options_def ex_env_def ex_parse_def)

lemma ex_StartInfo: "GetStartInfo ex_run_options = Some (ex_target ''C:/dev/Test.exe'')"
  by (simp add: ex_run_options_def ex_options_def)

lemma ex_Load:
  "LoadInputCoverageDatas ex_env ex_run_options =
     ([EvLog Info [StrItem ''Load coverage file: '', StrItem ''a.cov''],
       EvDeserialize ''a.cov'' ''Cannot extract coverage data from a.cov''], Inr [ex_coverage 0])"
  by (simp add: ex_run_options_def ex_options_def ex_env_def LoadInputCoverageDatas_def call_def ret_def)

lemma ex_RunCoverage:
  "RunCoverage ex_env (MakeRunCoverageSettings ex_run_options (ex_target ''C:/dev/Test.exe''))
     = Inr (ex_coverage 3)"
  by (simp add: ex_env_def)

lemma ex_Merge: "Merge ex_env ([ex_coverage 0] @ [ex_coverage 3]) = Inr (ex_merge [ex_coverage 0, ex_coverage 3])"
  by (simp add: ex_env_def)

lemma ex_Aggregate:
  "Aggregate ex_env ex_run_options (ex_merge [ex_coverage 0, ex_coverage 3]) =
     ([EvMergeFileCoverage (ex_merge [ex_coverage 0, ex_coverage 3])],
      Inr (ex_merge [ex_coverage 0, ex_coverage 3]))"
  by (simp add: Aggregate_def ex_run_options_def ex_options_def ex_env_def call_def)

lemma ex_Export:
  "Export ex_env ex_run_options d =
     ([EvExport Html d ''CoverageReport-Test'', EvExport Binary d ''out.cov''], Inr ())"
  by (simp add: ex_run_options_def ex_defs run_defs)

lemma ex_ExportTrace:
  "ExportTrace ex_env ex_run_options d =
     [EvExport Html d ''CoverageReport-Test'', EvExport Binary d ''out.cov'']"
  by (simp add: ex_run_options_def ex_defs run_defs)

lemma ex_GetExitCode [simp]: "GetExitCode (ex_coverage c) = c"
  by (simp add: ex_coverage_def)

section \<open>Hit status under the merger model\<close>

lemma osup_None [simp]: "osup None b = b" "osup a None = a"
  by (simp_all add: osup_def split: option.splits)

lemma osup_Some [simp]: "osup (Some x) (Some y) = Some (x \<or> y)"
  by (simp add: osup_def)

lemma osup_assoc: "osup (osup a b) c = osup a (osup b c)"
  by (auto simp: osup_def split: option.splits)

lemma osup_commute: "osup a b = osup b a"
  by (auto simp: osup_def split: option.splits)

lemma osup_left_commute: "osup a (osup b c) = osup b (osup a c)"
  by (auto simp: osup_def split: option.splits)

lemma osup_idem [simp]: "osup a a = a"
  by (auto simp: osup_def split: option.splits)

lemma osup_left_idem [simp]: "osup a (osup a b) = osup a b"
  by (auto simp: osup_def split: option.splits)

lemmas osup_ac = osup_assoc osup_commute osup_left_commute

lemma LinesStatus_AddLine:
  "LinesStatus (AddLine l xs) n = osup (LinesStatus xs n) (LineStatus l n)"
  by (induction xs) (auto simp: LineStatus_def osup_ac)

lemma LinesStatus_fold_AddLine:
  "LinesStatus (fold AddLine ls xs) n = osup (LinesStatus xs n) (LinesStatus ls n)"
  by (induction ls arbitrary: xs) (simp_all add: LinesStatus_AddLine osup_ac)

lemma FilesStatus_AddFile:
  "FilesStatus (AddFile f xs) p n = osup (FilesStatus xs p n) (FileStatus f p n)"
  by (induction xs) (auto simp: FileStatus_def LinesStatus_fold_AddLine osup_ac)

lemma FilesStatus_fold_AddFile:
  "FilesStatus (fold AddFile fs xs) p n = osup (FilesStatus xs p n) (FilesStatus fs p n)"
  by (induction fs arbitrary: xs) (simp_all add: FilesStatus_AddFile osup_ac)

lemma ModulesStatus_AddModule:
  "ModulesStatus (AddModule m xs) mp p n = osup (ModulesStatus xs mp p n) (ModuleStatus m mp p n)"
  by (induction xs) (auto simp: ModuleStatus_def FilesStatus_fold_AddFile osup_ac)

lemma ModulesStatus_fold_AddModule:
  "ModulesStatus (fold AddModule ms xs) mp p n = osup (ModulesStatus xs mp p n) (ModulesStatus ms mp p n)"
  by (induction ms arbitrary: xs) (simp_all add: ModulesStatus_AddModule osup_ac)

lemma ModulesStatus_fold_datas:
  "ModulesStatus (fold (\<lambda>d acc. fold AddModule (GetModules d) acc) ds xs) mp p n =
     osup (ModulesStatus xs mp p n) (JoinAll (map (\<lambda>d. HitStatus d mp p n) ds))"
  by (induction ds arbitrary: xs) (simp_all add: ModulesStatus_fold_AddModule HitStatus_def osup_ac)

lemma HitStatus_Merge:
  "HitStatus (CoverageDataMerger_Merge ds) mp p n = JoinAll (map (\<lambda>d. HitStatus d mp p n) ds)"
  by (simp add: CoverageDataMerger_Merge_def HitStatus_def [of "\<lparr>GetModules = _, GetExitCode = _\<rparr>"] ModulesStatus_fold_datas)

lemma JoinAll_set:
  "JoinAll as = (if Some True \<in> set as then Some True else if Some False \<in> set as then Some False else None)"
  by (induction as) (auto simp: osup_def split: option.splits)

lemma LinesStatus_fold_files:
  "LinesStatus (fold (\<lambda>f acc. if GetFilePath f = p then fold AddLine (GetLines f) acc else acc) files acc) n
     = osup (LinesStatus acc n) (FilesStatus files p n)"
  by (induction files arbitrary: acc) (simp_all add: FileStatus_def LinesStatus_fold_AddLine osup_ac)

lemma LinesStatus_AggregatedLines: "LinesStatus (AggregatedLines files p) n = FilesStatus files p n"
  by (simp add: AggregatedLines_def LinesStatus_fold_files)

lemma FilesStatus_append: "FilesStatus (xs @ ys) p n = osup (FilesStatus xs p n) (FilesStatus ys p n)"
  by (induction xs) (simp_all add: osup_ac)

lemma FilesStatus_absent: "p \<notin> GetFilePath ` set fs \<Longrightarrow> FilesStatus fs p n = None"
  by (induction fs) (auto simp: FileStatus_def)

subsection \<open>Collapsing the entries of a file\<close>

lemma CollapseFiles_paths:
  "set (map GetFilePath (CollapseFiles allFiles seen fs)) = set (map GetFilePath fs) - set seen"
  by (induction fs arbitrary: seen) auto

lemma CollapseFiles_distinct: "distinct (map GetFilePath (CollapseFiles allFiles seen fs))"
  by (induction fs arbitrary: seen) (auto simp: CollapseFiles_paths [simplified])

lemma CollapseFiles_status:
  "FilesStatus (CollapseFiles allFiles seen fs) p n =
     (if p \<in> set (map GetFilePath fs) - set seen
      then LinesStatus (AggregatedLines allFiles p) n else None)"
  by (induction fs arbitrary: seen) (auto simp: FileStatus_def)

lemma CollapseFiles_lines:
  "f \<in> set (CollapseFiles allFiles seen fs) \<Longrightarrow>
   GetLines f = AggregatedLines allFiles (GetFilePath f)"
  by (induction fs arbitrary: seen) (auto split: if_splits)

lemma CollapseModules_files:
  "concat (map GetFiles (CollapseModules allFiles seen ms)) =
     (case ms of [] \<Rightarrow> []
      | m # ms' \<Rightarrow> CollapseFiles allFiles seen (GetFiles m)
          @ concat (map GetFiles (CollapseModules allFiles (map GetFilePath (GetFiles m) @ seen) ms')))"
  by (cases ms) auto

lemma CollapseModules_paths:
  "set (map GetFilePath (concat (map GetFiles (CollapseModules allFiles seen ms)))) =
     set (map GetFilePath (concat (map GetFiles ms))) - set seen"
proof (induction ms arbitrary: seen)
  case Nil
  then show ?case by simp
next
  case (Cons m ms)
  show ?case
    unfolding CollapseModules_files [of allFiles seen "m # ms"]
    using Cons.IH [of "map GetFilePath (GetFiles m) @ seen"] CollapseFiles_paths [of allFiles seen "GetFiles m"]
    by auto
qed

lemma CollapseModules_distinct:
  "distinct (map GetFilePath (concat (map GetFiles (CollapseModules allFiles seen ms))))"
proof (induction ms arbitrary: seen)
  case Nil
  then show ?case by simp
next
  case (Cons m ms)
  show ?case
    unfolding CollapseModules_files [of allFiles seen "m # ms"]
    using Cons.IH [of "map GetFilePath (GetFiles m) @ seen"]
      CollapseFiles_paths [of allFiles seen "GetFiles m"]
      CollapseModules_paths [of allFiles "map GetFilePath (GetFiles m) @ seen" ms]
    by (auto simp: CollapseFiles_distinct)
qed

lemma CollapseModules_status:
  "FilesStatus (concat (map GetFiles (CollapseModules allFiles seen ms))) p n =
     (if p \<in> set (map GetFilePath (concat (map GetFiles ms))) - set seen
      then LinesStatus (AggregatedLines allFiles p) n else None)"
proof (induction ms arbitrary: seen)
  case Nil
  then show ?case by simp
next
  case (Cons m ms)
  show ?case
    unfolding CollapseModules_files [of allFiles seen "m # ms"]
    using Cons.IH [of "map GetFilePath (GetFiles m) @ seen"]
    by (auto simp: FilesStatus_append CollapseFiles_status)
qed

lemma CollapseModules_lines:
  "f \<in> set (concat (map GetFiles (CollapseModules allFiles seen ms))) \<Longrightarrow>
   GetLines f = AggregatedLines allFiles (GetFilePath f)"
proof (induction ms arbitrary: seen)
  case Nil
  then show ?case by simp
next
  case (Cons m ms)
  from Cons.prems show ?case
    unfolding CollapseModules_files [of allFiles seen "m # ms"]
    using Cons.IH [of "map GetFilePath (GetFiles m) @ seen"]
    by (auto dest: CollapseFiles_lines)
qed

lemma AddLine_numbers:
  "set (map GetLineNumber (AddLine l xs)) = insert (GetLineNumber l) (set (map GetLineNumber xs))"
  by (induction xs) auto

lemma AddLine_distinct:
  "distinct (map GetLineNumber xs) \<Longrightarrow> distinct (map GetLineNumber (AddLine l xs))"
  by (induction xs) (auto simp: AddLine_numbers [simplified])

lemma fold_AddLine_distinct:
  "distinct (map GetLineNumber xs) \<Longrightarrow> distinct (map GetLineNumber (fold AddLine ls xs))"
  by (induction ls arbitrary: xs) (simp_all add: AddLine_distinct)

lemma AggregatedLines_distinct: "distinct (map GetLineNumber (AggregatedLines files p))"
proof -
  have "distinct (map GetLineNumber acc) \<Longrightarrow>
      distinct (map GetLineNumber
        (fold (\<lambda>f acc. if GetFilePath f = p then fold AddLine (GetLines f) acc else acc) files acc))"
    for acc
    by (induction files arbitrary: acc) (simp_all add: fold_AddLine_distinct)
  then show ?thesis by (simp add: AggregatedLines_def)
qed

lemma osup_eq_Some_True: "(osup a b = Some True) = (a = Some True \<or> b = Some True)"
  by (auto simp: osup_def split: option.splits)

lemma osup_eq_None: "(osup a b = None) = (a = None \<and> b = None)"
  by (auto simp: osup_def split: option.splits)

lemma LinesStatus_Some_True:
  "(LinesStatus ls n = Some True) = (\<exists>l\<in>set ls. GetLineNumber l = n \<and> HasBeenExecuted l)"
  by (induction ls) (auto simp: LineStatus_def osup_eq_Some_True)

lemma LinesStatus_None:
  "(LinesStatus ls n = None) = (\<forall>l\<in>set ls. GetLineNumber l \<noteq> n)"
  by (induction ls) (auto simp: LineStatus_def osup_eq_None)

lemma FilesStatus_Some_True:
  "(FilesStatus fs p n = Some True) =
     (\<exists>f\<in>set fs. GetFilePath f = p \<and> (\<exists>l\<in>set (GetLines f). GetLineNumber l = n \<and> HasBeenExecuted l))"
  by (induction fs) (auto simp: FileStatus_def LinesStatus_Some_True osup_eq_Some_True)

lemma FilesStatus_None:
  "(FilesStatus fs p n = None) =
     (\<forall>f\<in>set fs. GetFilePath f = p \<longrightarrow> (\<forall>l\<in>set (GetLines f). GetLineNumber l \<noteq> n))"
  by (induction fs) (auto simp: FileStatus_def LinesStatus_None osup_eq_None)

lemma AllFiles_MergeFileCoverage:
  "AllFiles (CoverageDataMerger_MergeFileCoverage d) =
     concat (map GetFiles (CollapseModules (AllFiles d) [] (GetModules d)))"
  by (simp add: AllFiles_def CoverageDataMerger_MergeFileCoverage_def)

lemma FileLineStatus_MergeFileCoverage:
  "FileLineStatus (CoverageDataMerger_MergeFileCoverage d) p n = FileLineStatus d p n"
  unfolding FileLineStatus_def AllFiles_MergeFileCoverage CollapseModules_status
  by (simp add: LinesStatus_AggregatedLines AllFiles_def FilesStatus_absent)

lemma MergeFileCoverage_collapsed:
  "distinct (map GetFilePath (AllFiles (CoverageDataMerger_MergeFileCoverage d)))"
  unfolding AllFiles_MergeFileCoverage by (rule CollapseModules_distinct)

lemma MergeFileCoverage_paths:
  "set (map GetFilePath (AllFiles (CoverageDataMerger_MergeFileCoverage d)))
     = set (map GetFilePath (AllFiles d))"
  unfolding AllFiles_MergeFileCoverage CollapseModules_paths by (simp add: AllFiles_def)

lemma MergeFileCoverage_lines_keyed:
  "f \<in> set (AllFiles (CoverageDataMerger_MergeFileCoverage d)) \<Longrightarrow>
   distinct (map GetLineNumber (GetLines f))"
  unfolding AllFiles_MergeFileCoverage
  by (drule CollapseModules_lines) (simp add: AggregatedLines_distinct)

subsection \<open>Joining the statuses of the inputs\<close>

lemma JoinAll_map_Some_True:
  "(JoinAll (map f xs) = Some True) = (\<exists>x\<in>set xs. f x = Some True)"
  by (induction xs) (auto simp: osup_def split: option.splits)

lemma JoinAll_map_None: "(JoinAll (map f xs) = None) = (\<forall>x\<in>set xs. f x = None)"
  by (induction xs) (auto simp: osup_def split: option.splits)

lemmas status_defs = HitStatus_def FileLineStatus_def AllFiles_def ModuleStatus_def
  FileStatus_def LineStatus_def ex_other_def ex_coverage_def

section \<open>Aggregation in the trace of Run\<close>

lemma Run_Aggregated:
  assumes "LoadInputCoverageDatas env options = (t1, Inr loaded)"
    and "RunTarget env options loaded = (t2, Inr (exitCode, coveraDatas))"
    and "Merge env coveraDatas = Inr merged"
  shows "Aggregated (fst (Run env options)) =
           (if IsAggregateByFileModeEnabled options then [merged] else [])"
proof -
  have "t1 = fst (LoadLoop env [] (GetInputCoveragePaths options))"
    using assms(1) by (simp add: LoadInputCoverageDatas_def)
  then have t1: "Aggregated t1 = []"
    by simp
  have "t2 = fst (RunTarget env options loaded)"
    using assms(2) by simp
  then have t2: "Aggregated t2 = []"
    by simp
  have x: "Aggregated (fst (Export env options c)) = []" for c
    by (simp add: Export_def)
  have l: "Aggregated (fst (LogExitCode exitCode)) = []"
    by (simp add: LogExitCode_def emit_def ret_def)
  have "fst (Run env options) =
      fst (InitLogger options) @ t1 @ [StartLog env options] @ t2 @ [EvMerge coveraDatas]
      @ fst (then_do (Aggregate env options merged) (\<lambda>coverageData.
          then_do (Export env options coverageData) (\<lambda>_.
          then_do (LogExitCode exitCode) (\<lambda>_. ret exitCode))))"
    using assms
    by (simp add: Run_def InitLogger_eq StartLog_def call_def fst_then_do emit_def)
  then show ?thesis
    using t1 t2 x l
    by (simp add: InitLogger_eq StartLog_def fst_then_do Aggregate_Aggregated ret_def
        split: sum.splits)
qed

lemma Run_after_merge:
  assumes "LoadInputCoverageDatas env options = (t1, Inr loaded)"
    and "RunTarget env options loaded = (t2, Inr (exitCode, coveraDatas))"
    and "Merge env coveraDatas = Inr merged"
  shows "Run env options =
     (fst (InitLogger options) @ t1 @ [StartLog env options] @ t2 @ [EvMerge coveraDatas]
      @ fst (then_do (Aggregate env options merged) (\<lambda>coverageData.
             then_do (Export env options coverageData) (\<lambda>_.
             then_do (LogExitCode exitCode) (\<lambda>_. ret exitCode)))),
      snd (then_do (Aggregate env options merged) (\<lambda>coverageData.
             then_do (Export env options coverageData) (\<lambda>_.
             then_do (LogExitCode exitCode) (\<lambda>_. ret exitCode)))))"
  using assms
  by (simp add: Run_def InitLogger_eq StartLog_def call_def fst_then_do snd_then_do emit_def)

lemma Aggregate_eq:
  "Aggregate env options merged =
     (if IsAggregateByFileModeEnabled options
      then ([EvMergeFileCoverage merged], MergeFileCoverage env merged)
      else ([], Inr merged))"
  by (simp add: Aggregate_def call_def ret_def)

lemma prefix_then_do: "prefix (t @ fst m) (t @ fst (then_do m f))"
  by (simp add: fst_then_do split: sum.splits)

lemma Handle_Launched [simp]: "Launched (fst (Handle env r)) = []"
  by (simp add: Handle_def split: sum.splits exn.splits)

section \<open>Properties of the orchestration\<close>

subsection \<open>Option parsing fails\<close>

text \<open>
  C3. When the parser returns no options, \<^verbatim>\<open>OpenCppCoverage::Run\<close> returns
  \<^verbatim>\<open>FailureExitCode\<close> and its trace is empty: no target is launched, no step of the coverage
  pipeline runs, no warning is displayed and there is no pause.
\<close>

theorem parse_failure_aborts:
  assumes "Parse env argv = None"
  shows "OpenCppCoverage_Run env argv = ([], FailureExitCode env)"
  using assms by (simp add: OpenCppCoverage_Run_def)

theorem parse_failure_aborts_witness:
  "Parse ex_env [] = None \<and> OpenCppCoverage_Run ex_env [] = ([], 1)"
  using parse_failure_aborts [of ex_env "[]"] by (simp add: ex_env_def ex_parse_def)

subsection \<open>The pipeline throws\<close>

text \<open>
  C4. When the options are valid and \<^verbatim>\<open>Run\<close> on them ends with an exception, of either
  kind, the top-level \<^verbatim>\<open>Run\<close> logs the exception as an error after the events of the
  pipeline, then displays the warnings (and pauses in plugin mode), and returns
  \<^verbatim>\<open>FailureExitCode\<close>; this is a non-zero exit code provided the constant
  \<^verbatim>\<open>FailureExitCode\<close>, declared outside this file, is not zero.
\<close>

theorem exception_caught_at_top:
  assumes "Parse env argv = Some options"
    and "snd (Run env options) = Inl e"
    and "FailureExitCode env \<noteq> 0"
  shows "snd (OpenCppCoverage_Run env argv) = FailureExitCode env
    \<and> snd (OpenCppCoverage_Run env argv) \<noteq> 0
    \<and> fst (OpenCppCoverage_Run env argv) =
        fst (Run env options)
        @ [EvLog Error (case e of StdException what \<Rightarrow> [StrItem ''Error: '', StrItem what]
                        | OtherException \<Rightarrow> [StrItem ''Unkown Error'']),
           EvDisplayWarnings]
        @ Pause options"
  using assms by (simp add: OpenCppCoverage_Run_def snd_Handle_Inl fst_Handle_Inl)

theorem exception_caught_at_top_witness:
  "Parse ex_env [''C:/dev/Test.exe'', ''bad.cov'']
      = Some (ex_options (Some (ex_target ''C:/dev/Test.exe'')) [''bad.cov''])
   \<and> snd (Run ex_env (ex_options (Some (ex_target ''C:/dev/Test.exe'')) [''bad.cov'']))
      = Inl (StdException ''Cannot extract coverage data from bad.cov'')
   \<and> FailureExitCode ex_env \<noteq> 0
   \<and> OpenCppCoverage_Run ex_env [''C:/dev/Test.exe'', ''bad.cov''] =
       ([EvInitConsoleAndFileLog ''LastCoverageResults.log'',
         EvSetLoggerMinSeverity Info,
         EvLog Info [StrItem ''Load coverage file: '', StrItem ''bad.cov''],
         EvDeserialize ''bad.cov'' ''Cannot extract coverage data from bad.cov'',
         EvLog Error [StrItem ''Error: '', StrItem ''Cannot extract coverage data from bad.cov''],
         EvDisplayWarnings], 1)"
proof -
  have p: "Parse ex_env [''C:/dev/Test.exe'', ''bad.cov'']
      = Some (ex_options (Some (ex_target ''C:/dev/Test.exe'')) [''bad.cov''])"
    by (simp add: ex_env_def ex_parse_def)
  have r: "Run ex_env (ex_options (Some (ex_target ''C:/dev/Test.exe'')) [''bad.cov''])
      = ([EvInitConsoleAndFileLog ''LastCoverageResults.log'',
          EvSetLoggerMinSeverity Info,
          EvLog Info [StrItem ''Load coverage file: '', StrItem ''bad.cov''],
          EvDeserialize ''bad.cov'' ''Cannot extract coverage data from bad.cov''],
         Inl (StdException ''Cannot extract coverage data from bad.cov''))"
    by (simp add: ex_defs run_defs)
  have f: "FailureExitCode ex_env \<noteq> 0" by (simp add: ex_env_def)
  from exception_caught_at_top
    [OF p _ f, of "StdException ''Cannot extract coverage data from bad.cov''"] p r f
  show ?thesis by (simp add: prod_eq_iff Pause_def ex_options_def ex_env_def)
qed

subsection \<open>The threshold of unmatched paths\<close>

text \<open>
  C2. Every launch of the coverage runner by \<^verbatim>\<open>Run\<close> passes settings whose maximum number
  of unmatched paths is the largest \<^verbatim>\<open>size_t\<close> (all bits set, \<open>2 ^ 64 - 1\<close>) when the log
  level is verbose and 30 otherwise; so it is the largest \<^verbatim>\<open>size_t\<close> if and only if the log
  level is verbose.
\<close>

theorem max_unmatch_paths_for_warning:
  assumes "settings \<in> set (Launched (fst (Run env options)))"
  shows "MaxUnmatchPathsForWarning settings = (if GetLogLevel options = Verbose then - 1 else 30)
    \<and> (unat (MaxUnmatchPathsForWarning settings) = 2 ^ 64 - 1) = (GetLogLevel options = Verbose)
    \<and> (GetLogLevel options \<noteq> Verbose \<longrightarrow> unat (MaxUnmatchPathsForWarning settings) = 30)"
proof -
  from assms Run_Launched [of env options]
  obtain startInfo where "settings = MakeRunCoverageSettings options startInfo"
    by (auto split: option.splits)
  then show ?thesis
    by (simp add: MakeRunCoverageSettings_def maxUnmatchPathsForWarning_def unat_size_t_max)
qed

theorem max_unmatch_paths_for_warning_witness:
  "MakeRunCoverageSettings (ex_options (Some (ex_target ''C:/dev/Test.exe'')) [])
       (ex_target ''C:/dev/Test.exe'')
     \<in> set (Launched (fst (Run ex_env (ex_options (Some (ex_target ''C:/dev/Test.exe'')) []))))
   \<and> GetLogLevel (ex_options (Some (ex_target ''C:/dev/Test.exe'')) []) = Normal
   \<and> unat (MaxUnmatchPathsForWarning
        (MakeRunCoverageSettings (ex_options (Some (ex_target ''C:/dev/Test.exe'')) [])
           (ex_target ''C:/dev/Test.exe''))) = 30
   \<and> MakeRunCoverageSettings (ex_run_options\<lparr>GetLogLevel := Verbose\<rparr>)
       (ex_target ''C:/dev/Test.exe'')
     \<in> set (Launched (fst (Run ex_env (ex_run_options\<lparr>GetLogLevel := Verbose\<rparr>))))
   \<and> unat (MaxUnmatchPathsForWarning
        (MakeRunCoverageSettings (ex_run_options\<lparr>GetLogLevel := Verbose\<rparr>)
           (ex_target ''C:/dev/Test.exe''))) = 18446744073709551615"
proof -
  have l: "MakeRunCoverageSettings (ex_options (Some (ex_target ''C:/dev/Test.exe'')) [])
       (ex_target ''C:/dev/Test.exe'')
     \<in> set (Launched (fst (Run ex_env (ex_options (Some (ex_target ''C:/dev/Test.exe'')) []))))"
    by (simp add: ex_defs run_defs)
  have v: "MakeRunCoverageSettings (ex_run_options\<lparr>GetLogLevel := Verbose\<rparr>)
       (ex_target ''C:/dev/Test.exe'')
     \<in> set (Launched (fst (Run ex_env (ex_run_options\<lparr>GetLogLevel := Verbose\<rparr>))))"
    by (simp add: ex_run_options_def ex_defs run_defs)
  have n: "GetLogLevel (ex_options (Some (ex_target ''C:/dev/Test.exe'')) []) = Normal"
    by (simp add: ex_options_def)
  have g: "GetLogLevel (ex_run_options\<lparr>GetLogLevel := Verbose\<rparr>) = Verbose"
    by simp
  have l30: "unat (MaxUnmatchPathsForWarning
        (MakeRunCoverageSettings (ex_options (Some (ex_target ''C:/dev/Test.exe'')) [])
           (ex_target ''C:/dev/Test.exe''))) = 30"
    using max_unmatch_paths_for_warning [OF l, THEN conjunct2, THEN conjunct2] n by simp
  have vmax: "unat (MaxUnmatchPathsForWarning
        (MakeRunCoverageSettings (ex_run_options\<lparr>GetLogLevel := Verbose\<rparr>)
           (ex_target ''C:/dev/Test.exe''))) = 18446744073709551615"
    using max_unmatch_paths_for_warning [OF v, THEN conjunct2, THEN conjunct1] g by simp
  show ?thesis
    using l n l30 v vmax by simp
qed

subsection \<open>The exit code of the target\<close>

text \<open>
  C1, as amended. When a target is launched and no step of the pipeline throws (the inputs
  load, the runner returns a coverage model, merge, aggregation and export succeed),
  \<^verbatim>\<open>OpenCppCoverage::Run\<close> returns the exit code of the target, whatever it is, after the
  whole pipeline has run: merge, aggregation, every export, then the record of the exit
  code, then the display of the warnings. A non-zero exit code is logged once, with
  \<^verbatim>\<open>LOG_ERROR\<close>, that is at error level; nothing is logged at warning level.
\<close>

theorem target_exit_code_returned:
  assumes "Parse env argv = Some options"
    and "GetStartInfo options = Some startInfo"
    and "LoadInputCoverageDatas env options = (t1, Inr loaded)"
    and "RunCoverage env (MakeRunCoverageSettings options startInfo) = Inr target"
    and "Merge env (loaded @ [target]) = Inr merged"
    and "Aggregate env options merged = (t3, Inr coverageData)"
    and "snd (Export env options coverageData) = Inr ()"
  shows "snd (OpenCppCoverage_Run env argv) = GetExitCode target
    \<and> fst (OpenCppCoverage_Run env argv) =
        fst (InitLogger options) @ t1
        @ [StartLog env options,
           EvRunCoverage (MakeRunCoverageSettings options startInfo),
           EvMerge (loaded @ [target])]
        @ t3 @ ExportTrace env options coverageData
        @ fst (LogExitCode (GetExitCode target))
        @ [EvDisplayWarnings] @ Pause options
    \<and> LoggedAt Error (fst (OpenCppCoverage_Run env argv)) =
        (if GetExitCode target = 0 then []
         else [[StrItem ''Your program stop with error code: '', IntItem (GetExitCode target)]])
    \<and> LoggedAt Warning (fst (OpenCppCoverage_Run env argv)) = []"
proof -
  note rt = RunTarget_target [OF assms(2) assms(4), of loaded]
  note steps = Run_steps [OF assms(3) rt assms(5) assms(6)]
  have s: "snd (Run env options) = Inr (GetExitCode target)"
    using steps(2) assms(7) by simp
  have f: "fst (Run env options) =
        fst (InitLogger options) @ t1
        @ [StartLog env options,
           EvRunCoverage (MakeRunCoverageSettings options startInfo),
           EvMerge (loaded @ [target])]
        @ t3 @ ExportTrace env options coverageData
        @ fst (LogExitCode (GetExitCode target))"
    using steps(1) assms(7) Export_success [OF assms(7)] by simp
  have t1: "LoggedAt Error t1 = []" "LoggedAt Warning t1 = []"
    using LoadInputCoverageDatas_LoggedAt [OF assms(3)] by simp_all
  have t3: "LoggedAt Error t3 = []" "LoggedAt Warning t3 = []"
    using Aggregate_LoggedAt' [OF assms(6)] by simp_all
  have w: "LoggedAt Warning (fst (LogExitCode (GetExitCode target))) = []"
    by (simp add: LogExitCode_def emit_def ret_def)
  show ?thesis
    using assms(1) s f t1 t3 w
    by (simp add: OpenCppCoverage_Run_def Handle_def InitLogger_eq StartLog_def
        LogExitCode_LoggedAt_Error)
qed

theorem target_exit_code_returned_witness:
  "Parse ex_env ex_argv = Some ex_run_options
   \<and> GetStartInfo ex_run_options = Some (ex_target ''C:/dev/Test.exe'')
   \<and> RunCoverage ex_env (MakeRunCoverageSettings ex_run_options (ex_target ''C:/dev/Test.exe''))
       = Inr (ex_coverage 3)
   \<and> OpenCppCoverage_Run ex_env ex_argv = (ex_run_trace, 3)
   \<and> LoggedAt Error ex_run_trace = [[StrItem ''Your program stop with error code: '', IntItem 3]]
   \<and> LoggedAt Warning ex_run_trace = []"
proof -
  have e: "snd (Export ex_env ex_run_options (ex_merge [ex_coverage 0, ex_coverage 3])) = Inr ()"
    by (simp add: ex_Export)
  have p: "Pause ex_run_options = []"
    by (simp add: Pause_def ex_run_options_def ex_options_def)
  have i: "fst (InitLogger ex_run_options) =
     [EvInitConsoleAndFileLog ''LastCoverageResults.log'', EvSetLoggerMinSeverity Info]"
    by (simp add: InitLogger_eq LoggerMinSeverity_def ex_run_options_def ex_options_def)
  have s: "StartLog ex_env ex_run_options =
     EvLog Info [StrItem ''Start Program:'', StrItem (CHR 0x0A # ''options'')]"
    by (simp add: StartLog_def ex_env_def)
  have l: "fst (LogExitCode 3) = [EvLog Error [StrItem ''Your program stop with error code: '', IntItem 3]]"
    by (simp add: LogExitCode_def emit_def)
  from target_exit_code_returned
    [OF ex_Parse ex_StartInfo ex_Load ex_RunCoverage ex_Merge ex_Aggregate e]
  show ?thesis
    by (simp add: ex_Parse ex_StartInfo ex_RunCoverage ex_ExportTrace p i s l prod_eq_iff
        ex_run_trace_def)
qed

text \<open>
  C1 as stated asks for a warning-level log record of a non-zero exit code. On the
  concrete run the target is launched and exits with code 3, the run returns 3, and no
  record is logged at warning level: the record of the exit code is at error level.
\<close>

theorem exit_code_logged_at_warning_counterexample:
  "Launched (fst (OpenCppCoverage_Run ex_env ex_argv)) =
      [MakeRunCoverageSettings ex_run_options (ex_target ''C:/dev/Test.exe'')]
   \<and> snd (OpenCppCoverage_Run ex_env ex_argv) = 3
   \<and> LoggedAt Warning (fst (OpenCppCoverage_Run ex_env ex_argv)) = []
   \<and> LoggedAt Error (fst (OpenCppCoverage_Run ex_env ex_argv)) =
       [[StrItem ''Your program stop with error code: '', IntItem 3]]"
proof -
  have "OpenCppCoverage_Run ex_env ex_argv = (ex_run_trace, 3)"
    by (simp add: ex_argv_def ex_run_trace_def ex_run_options_def ex_defs run_defs)
  then show ?thesis by (simp add: ex_run_trace_def)
qed

subsection \<open>Export comes before the exit code is looked at\<close>



subsection \<open>Merge-only mode\<close>

text \<open>
  C9, as amended. With no target configured, \<^verbatim>\<open>OpenCppCoverage::Run\<close> launches no process,
  whatever happens. When moreover every input coverage file deserializes, and merge,
  aggregation (when enabled) and export do not throw, it deserializes every input in
  order, merges the loaded models, applies the aggregation when it is enabled, exports
  the result to every configured export and returns 0.
\<close>

theorem merge_only_mode:
  assumes "Parse env argv = Some options"
    and "GetStartInfo options = None"
  shows "Launched (fst (OpenCppCoverage_Run env argv)) = []
    \<and> (map (\<lambda>p. Deserialize env p (''Cannot extract coverage data from '' @ p))
           (GetInputCoveragePaths options) = map Inr loaded
        \<and> Merge env loaded = Inr merged
        \<and> (if IsAggregateByFileModeEnabled options then MergeFileCoverage env merged
            else Inr merged) = Inr coverageData
        \<and> snd (Export env options coverageData) = Inr () \<longrightarrow>
        OpenCppCoverage_Run env argv =
           (fst (InitLogger options) @ LoadTrace (GetInputCoveragePaths options)
            @ [StartLog env options, EvMerge loaded]
            @ (if IsAggregateByFileModeEnabled options then [EvMergeFileCoverage merged] else [])
            @ ExportTrace env options coverageData
            @ [EvDisplayWarnings] @ Pause options, 0))"
proof -
  have l: "Launched (fst (Run env options)) = []"
    using Run_Launched [of env options] assms(2) by simp
  have 1: "Launched (fst (OpenCppCoverage_Run env argv)) = []"
    using assms(1) l by (simp add: OpenCppCoverage_Run_def)
  have 2: "OpenCppCoverage_Run env argv =
           (fst (InitLogger options) @ LoadTrace (GetInputCoveragePaths options)
            @ [StartLog env options, EvMerge loaded]
            @ (if IsAggregateByFileModeEnabled options then [EvMergeFileCoverage merged] else [])
            @ ExportTrace env options coverageData
            @ [EvDisplayWarnings] @ Pause options, 0)"
    if d: "map (\<lambda>p. Deserialize env p (''Cannot extract coverage data from '' @ p))
           (GetInputCoveragePaths options) = map Inr loaded"
      and m: "Merge env loaded = Inr merged"
      and a: "(if IsAggregateByFileModeEnabled options then MergeFileCoverage env merged
            else Inr merged) = Inr coverageData"
      and e: "snd (Export env options coverageData) = Inr ()"
  proof -
    have ld: "LoadInputCoverageDatas env options =
        (LoadTrace (GetInputCoveragePaths options), Inr loaded)"
      using LoadLoop_success [OF d, of "[]"] by (simp add: LoadInputCoverageDatas_def)
    have ag: "Aggregate env options merged =
        ((if IsAggregateByFileModeEnabled options then [EvMergeFileCoverage merged] else []),
         Inr coverageData)"
      using a by (simp add: Aggregate_eq split: if_splits)
    note rt = RunTarget_no_target [OF assms(2), of env loaded]
    note steps = Run_steps [OF ld rt m ag]
    have r: "Run env options =
           (fst (InitLogger options) @ LoadTrace (GetInputCoveragePaths options)
            @ [StartLog env options, EvMerge loaded]
            @ (if IsAggregateByFileModeEnabled options then [EvMergeFileCoverage merged] else [])
            @ ExportTrace env options coverageData, Inr 0)"
      using steps e Export_success [OF e]
      by (simp add: prod_eq_iff LogExitCode_def ret_def)
    show ?thesis
      using assms(1) r by (simp add: OpenCppCoverage_Run_def Handle_def)
  qed
  show ?thesis
    using 1 2 by blast
qed

theorem merge_only_mode_witness:
  "Parse ex_env ex_merge_argv = Some ex_merge_options
   \<and> GetStartInfo ex_merge_options = None
   \<and> GetInputCoveragePaths ex_merge_options = [''a.cov'', ''b.cov'']
   \<and> IsAggregateByFileModeEnabled ex_merge_options
   \<and> Launched (fst (OpenCppCoverage_Run ex_env ex_merge_argv)) = []
   \<and> OpenCppCoverage_Run ex_env ex_merge_argv =
       ([EvInitConsoleAndFileLog ''LastCoverageResults.log'',
         EvSetLoggerMinSeverity Info,
         EvLog Info [StrItem ''Load coverage file: '', StrItem ''a.cov''],
         EvDeserialize ''a.cov'' ''Cannot extract coverage data from a.cov'',
         EvLog Info [StrItem ''Load coverage file: '', StrItem ''b.cov''],
         EvDeserialize ''b.cov'' ''Cannot extract coverage data from b.cov'',
         EvLog Info [StrItem ''Start Program:'', StrItem (CHR 0x0A # ''options'')],
         EvMerge [ex_coverage 0, ex_coverage 0],
         EvMergeFileCoverage (ex_merge [ex_coverage 0, ex_coverage 0]),
         EvExport Html (ex_merge [ex_coverage 0, ex_coverage 0]) ''CoverageReport-CoverageOutput'',
         EvExport Binary (ex_merge [ex_coverage 0, ex_coverage 0]) ''out.cov'',
         EvDisplayWarnings], 0)"
proof -
  have p: "Parse ex_env ex_merge_argv = Some ex_merge_options"
    by (simp add: ex_merge_argv_def ex_merge_options_def ex_env_def ex_parse_def)
  have n: "GetStartInfo ex_merge_options = None"
    by (simp add: ex_merge_options_def ex_options_def)
  have i: "GetInputCoveragePaths ex_merge_options = [''a.cov'', ''b.cov'']"
    by (simp add: ex_merge_options_def ex_options_def)
  have f: "IsAggregateByFileModeEnabled ex_merge_options"
    by (simp add: ex_merge_options_def ex_options_def)
  have d: "map (\<lambda>p. Deserialize ex_env p (''Cannot extract coverage data from '' @ p))
           (GetInputCoveragePaths ex_merge_options) = map Inr [ex_coverage 0, ex_coverage 0]"
    by (simp add: i ex_env_def)
  have m: "Merge ex_env [ex_coverage 0, ex_coverage 0] = Inr (ex_merge [ex_coverage 0, ex_coverage 0])"
    by (simp add: ex_env_def)
  have a: "(if IsAggregateByFileModeEnabled ex_merge_options
            then MergeFileCoverage ex_env (ex_merge [ex_coverage 0, ex_coverage 0])
            else Inr (ex_merge [ex_coverage 0, ex_coverage 0]))
           = Inr (ex_merge [ex_coverage 0, ex_coverage 0])"
    by (simp add: f ex_env_def)
  have x: "Export ex_env ex_merge_options c =
     ([EvExport Html c ''CoverageReport-CoverageOutput'', EvExport Binary c ''out.cov''], Inr ())"
    for c
    by (simp add: ex_merge_options_def ex_defs run_defs)
  have xt: "ExportTrace ex_env ex_merge_options c =
     [EvExport Html c ''CoverageReport-CoverageOutput'', EvExport Binary c ''out.cov'']"
    for c
    by (simp add: ex_merge_options_def ex_defs run_defs)
  have e: "snd (Export ex_env ex_merge_options (ex_merge [ex_coverage 0, ex_coverage 0])) = Inr ()"
    by (simp add: x)
  have il: "fst (InitLogger ex_merge_options) =
     [EvInitConsoleAndFileLog ''LastCoverageResults.log'', EvSetLoggerMinSeverity Info]"
    by (simp add: InitLogger_eq LoggerMinSeverity_def ex_merge_options_def ex_options_def)
  have s: "StartLog ex_env ex_merge_options =
     EvLog Info [StrItem ''Start Program:'', StrItem (CHR 0x0A # ''options'')]"
    by (simp add: StartLog_def ex_env_def)
  have ps: "Pause ex_merge_options = []"
    by (simp add: Pause_def ex_merge_options_def ex_options_def)
  note c9 = merge_only_mode [OF p n, of "[ex_coverage 0, ex_coverage 0]"
      "ex_merge [ex_coverage 0, ex_coverage 0]" "ex_merge [ex_coverage 0, ex_coverage 0]"]
  have l: "Launched (fst (OpenCppCoverage_Run ex_env ex_merge_argv)) = []"
    using c9 [THEN conjunct1] .
  have r: "OpenCppCoverage_Run ex_env ex_merge_argv =
       ([EvInitConsoleAndFileLog ''LastCoverageResults.log'',
         EvSetLoggerMinSeverity Info,
         EvLog Info [StrItem ''Load coverage file: '', StrItem ''a.cov''],
         EvDeserialize ''a.cov'' ''Cannot extract coverage data from a.cov'',
         EvLog Info [StrItem ''Load coverage file: '', StrItem ''b.cov''],
         EvDeserialize ''b.cov'' ''Cannot extract coverage data from b.cov'',
         EvLog Info [StrItem ''Start Program:'', StrItem (CHR 0x0A # ''options'')],
         EvMerge [ex_coverage 0, ex_coverage 0],
         EvMergeFileCoverage (ex_merge [ex_coverage 0, ex_coverage 0]),
         EvExport Html (ex_merge [ex_coverage 0, ex_coverage 0]) ''CoverageReport-CoverageOutput'',
         EvExport Binary (ex_merge [ex_coverage 0, ex_coverage 0]) ''out.cov'',
         EvDisplayWarnings], 0)"
    using c9 [THEN conjunct2] d m a e
    by (simp add: i f xt il s ps LoadTrace_def)
  show ?thesis
    using p n i f l r by simp
qed

text \<open>
  C9 as stated promises the merge, the export and the exit code 0 for every run in
  merge-only mode. The loop of \<^verbatim>\<open>LoadInputCoverageDatas\<close> has no handler: on the concrete
  run with inputs \<^verbatim>\<open>a.cov\<close>, \<^verbatim>\<open>bad.cov\<close>, \<^verbatim>\<open>c.cov\<close> the deserializer throws on the second
  input, the third is never read, nothing is merged or exported, and the run returns
  the failure exit code 1.
\<close>

theorem merge_only_mode_corrupt_input_counterexample:
  "Parse ex_env ex_corrupt_argv = Some (ex_options None [''a.cov'', ''bad.cov'', ''c.cov''])
   \<and> GetStartInfo (ex_options None [''a.cov'', ''bad.cov'', ''c.cov'']) = None
   \<and> OpenCppCoverage_Run ex_env ex_corrupt_argv =
       ([EvInitConsoleAndFileLog ''LastCoverageResults.log'',
         EvSetLoggerMinSeverity Info,
         EvLog Info [StrItem ''Load coverage file: '', StrItem ''a.cov''],
         EvDeserialize ''a.cov'' ''Cannot extract coverage data from a.cov'',
         EvLog Info [StrItem ''Load coverage file: '', StrItem ''bad.cov''],
         EvDeserialize ''bad.cov'' ''Cannot extract coverage data from bad.cov'',
         EvLog Error [StrItem ''Error: '', StrItem ''Cannot extract coverage data from bad.cov''],
         EvDisplayWarnings], 1)"
  by (simp add: ex_corrupt_argv_def ex_defs run_defs)

subsection \<open>The output path of an export\<close>

text \<open>
  C10. \<^verbatim>\<open>Export\<close> calls the exporters in the order of the configured exports (all of them
  when no exporter throws, the first ones otherwise), each on the output path of its
  export. That path is the configured output path, verbatim, when there is one, and
  otherwise the default path of the export's exporter for the default prefix. The prefix
  is the literal \<^verbatim>\<open>CoverageOutput\<close> without a target; with a target it is what the
  filesystem library gives for the file name of the target's path with its extension
  replaced by nothing.
\<close>

theorem export_output_path:
  "prefix (fst (Export env options coverage))
     (map (\<lambda>singleExport.
             EvExport (GetType singleExport) coverage
               (case GetOutputPath singleExport of
                  Some configured \<Rightarrow> configured
                | None \<Rightarrow>
                    GetDefaultPath env (GetType singleExport)
                      (case GetStartInfo options of
                         Some startInfo \<Rightarrow>
                           PathReplaceExtension env (PathFilename env (GetPath startInfo)) []
                       | None \<Rightarrow> ''CoverageOutput'')))
        (GetExports options))
   \<and> (snd (Export env options coverage) = Inr () \<longrightarrow>
        fst (Export env options coverage) =
          map (\<lambda>singleExport.
                 EvExport (GetType singleExport) coverage
                   (case GetOutputPath singleExport of
                      Some configured \<Rightarrow> configured
                    | None \<Rightarrow>
                        GetDefaultPath env (GetType singleExport)
                          (case GetStartInfo options of
                             Some startInfo \<Rightarrow>
                               PathReplaceExtension env (PathFilename env (GetPath startInfo)) []
                           | None \<Rightarrow> ''CoverageOutput'')))
            (GetExports options))
   \<and> (GetOutputPath singleExport = Some configured \<longrightarrow>
        ExportOutput env (GetDefaultPathPrefix env options) singleExport = configured)
   \<and> (GetOutputPath singleExport = None \<longrightarrow>
        ExportOutput env (GetDefaultPathPrefix env options) singleExport =
          GetDefaultPath env (GetType singleExport) (GetDefaultPathPrefix env options))
   \<and> (GetStartInfo options = None \<longrightarrow> GetDefaultPathPrefix env options = ''CoverageOutput'')
   \<and> (GetStartInfo options = Some startInfo \<longrightarrow>
        GetDefaultPathPrefix env options =
          PathReplaceExtension env (PathFilename env (GetPath startInfo)) [])"
proof -
  have t: "ExportTrace env options coverage =
     map (\<lambda>singleExport.
             EvExport (GetType singleExport) coverage
               (case GetOutputPath singleExport of
                  Some configured \<Rightarrow> configured
                | None \<Rightarrow>
                    GetDefaultPath env (GetType singleExport)
                      (case GetStartInfo options of
                         Some startInfo \<Rightarrow>
                           PathReplaceExtension env (PathFilename env (GetPath startInfo)) []
                       | None \<Rightarrow> ''CoverageOutput'')))
        (GetExports options)"
    by (simp add: ExportTrace_def ExportOutput_def GetDefaultPathPrefix_def)
  have 1: "prefix (fst (Export env options coverage)) (ExportTrace env options coverage)"
    by (simp add: Export_def ExportTrace_def ExportLoop_prefix)
  have 2: "fst (Export env options coverage) = ExportTrace env options coverage"
    if "snd (Export env options coverage) = Inr ()"
    using that by (rule Export_success)
  show ?thesis
    using 1 2 unfolding t by (auto simp: ExportOutput_def GetDefaultPathPrefix_def)
qed

theorem export_output_path_witness:
  "snd (Export ex_env ex_run_options (ex_coverage 0)) = Inr ()
   \<and> fst (Export ex_env ex_run_options (ex_coverage 0)) =
       [EvExport Html (ex_coverage 0) ''CoverageReport-Test'',
        EvExport Binary (ex_coverage 0) ''out.cov'']
   \<and> GetStartInfo ex_run_options = Some (ex_target ''C:/dev/Test.exe'')
   \<and> PathReplaceExtension ex_env (PathFilename ex_env (GetPath (ex_target ''C:/dev/Test.exe''))) []
       = ''Test''
   \<and> GetDefaultPathPrefix ex_env ex_run_options = ''Test''
   \<and> GetStartInfo ex_merge_options = None
   \<and> GetDefaultPathPrefix ex_env ex_merge_options = ''CoverageOutput''
   \<and> GetOutputPath \<lparr> GetType = Binary, GetOutputPath = Some ''out.cov'' \<rparr> = Some ''out.cov''
   \<and> ExportOutput ex_env (GetDefaultPathPrefix ex_env ex_run_options)
        \<lparr> GetType = Binary, GetOutputPath = Some ''out.cov'' \<rparr> = ''out.cov''
   \<and> GetOutputPath \<lparr> GetType = Html, GetOutputPath = None \<rparr> = None
   \<and> ExportOutput ex_env (GetDefaultPathPrefix ex_env ex_run_options)
        \<lparr> GetType = Html, GetOutputPath = None \<rparr> = ''CoverageReport-Test''"
proof -
  have e: "snd (Export ex_env ex_run_options (ex_coverage 0)) = Inr ()"
    by (simp add: ex_Export)
  have g: "PathReplaceExtension ex_env (PathFilename ex_env (GetPath (ex_target ''C:/dev/Test.exe''))) []
       = ''Test''"
    by (simp add: ex_env_def ex_target_def ex_filename_def ex_replace_extension_def)
  have n: "GetStartInfo ex_merge_options = None"
    by (simp add: ex_merge_options_def ex_options_def)
  have x: "GetExports ex_run_options =
      [\<lparr> GetType = Html, GetOutputPath = None \<rparr>,
       \<lparr> GetType = Binary, GetOutputPath = Some ''out.cov'' \<rparr>]"
    by (simp add: ex_run_options_def ex_options_def)
  have d: "GetDefaultPath ex_env Html ''Test'' = ''CoverageReport-Test''"
    by (simp add: ex_env_def ex_default_path_def)
  note c10 = export_output_path [of ex_env ex_run_options "ex_coverage 0"]
  have t: "fst (Export ex_env ex_run_options (ex_coverage 0)) =
       [EvExport Html (ex_coverage 0) ''CoverageReport-Test'',
        EvExport Binary (ex_coverage 0) ''out.cov'']"
    using c10 [THEN conjunct2, THEN conjunct1] e
    by (simp add: x ex_StartInfo g d)
  have a: "GetDefaultPathPrefix ex_env ex_run_options = ''Test''"
    using c10 [of _ _ "ex_target ''C:/dev/Test.exe''", THEN conjunct2, THEN conjunct2,
        THEN conjunct2, THEN conjunct2, THEN conjunct2]
    by (simp add: ex_StartInfo g)
  have m: "GetDefaultPathPrefix ex_env ex_merge_options = ''CoverageOutput''"
    using export_output_path [of ex_env ex_merge_options "ex_coverage 0",
        THEN conjunct2, THEN conjunct2, THEN conjunct2, THEN conjunct2, THEN conjunct1] n
    by simp
  have b: "ExportOutput ex_env (GetDefaultPathPrefix ex_env ex_run_options)
        \<lparr> GetType = Binary, GetOutputPath = Some ''out.cov'' \<rparr> = ''out.cov''"
    using c10 [of "\<lparr> GetType = Binary, GetOutputPath = Some ''out.cov'' \<rparr>" "''out.cov''",
        THEN conjunct2, THEN conjunct2, THEN conjunct1]
    by simp
  have h: "ExportOutput ex_env (GetDefaultPathPrefix ex_env ex_run_options)
        \<lparr> GetType = Html, GetOutputPath = None \<rparr> = ''CoverageReport-Test''"
    using c10 [of "\<lparr> GetType = Html, GetOutputPath = None \<rparr>",
        THEN conjunct2, THEN conjunct2, THEN conjunct2, THEN conjunct1]
    by (simp add: a d)
  show ?thesis
    using e g n t a m b h by (simp add: ex_StartInfo)
qed

section \<open>Properties of merging and aggregation\<close>

subsection \<open>Aggregation by file\<close>

text \<open>
  C6. Once the inputs are loaded, the target (if any) has run and the merge has produced
  the merged model, \<^verbatim>\<open>Run\<close> applies \<^verbatim>\<open>MergeFileCoverage\<close> to that model if and only if the
  aggregate-by-file mode is enabled: with the mode disabled the merged model itself is
  exported; with the mode enabled the model exported is the one \<^verbatim>\<open>MergeFileCoverage\<close>
  returns for the merged model, and an exception of \<^verbatim>\<open>MergeFileCoverage\<close> ends \<^verbatim>\<open>Run\<close>. In any
  run, an application of \<^verbatim>\<open>MergeFileCoverage\<close> implies that the mode is enabled.

  On the model of \<^verbatim>\<open>MergeFileCoverage\<close> written from its specification, the transformation
  regroups and keeps the hit data. After it every file has one entry (the entries that
  the modules had for the same file are collapsed into one), the files are the same as
  before, and every entry has one line per line number. The hit status of every line of
  every file is unchanged, where the status of a line of a file is read from all entries
  of the file: hit if some entry has the line marked executed, absent if no entry has
  the line. Since the entries of a file in distinct modules become one, the status of a
  line is the status per file and line, not per module.
\<close>

theorem merge_file_coverage_iff_aggregate_by_file:
  "(LoadInputCoverageDatas env options = (t1, Inr loaded)
      \<and> RunTarget env options loaded = (t2, Inr (exitCode, coveraDatas))
      \<and> Merge env coveraDatas = Inr merged \<longrightarrow>
      Aggregated (fst (Run env options)) =
        (if IsAggregateByFileModeEnabled options then [merged] else [])
      \<and> (merged \<in> set (Aggregated (fst (Run env options)))) = IsAggregateByFileModeEnabled options
      \<and> (\<not> IsAggregateByFileModeEnabled options \<longrightarrow>
           prefix
             (fst (InitLogger options) @ t1 @ [StartLog env options] @ t2
              @ [EvMerge coveraDatas] @ fst (Export env options merged))
             (fst (Run env options)))
      \<and> (IsAggregateByFileModeEnabled options \<and> MergeFileCoverage env merged = Inr aggregated \<longrightarrow>
           prefix
             (fst (InitLogger options) @ t1 @ [StartLog env options] @ t2
              @ [EvMerge coveraDatas, EvMergeFileCoverage merged]
              @ fst (Export env options aggregated))
             (fst (Run env options)))
      \<and> (IsAggregateByFileModeEnabled options \<and> MergeFileCoverage env merged = Inl e \<longrightarrow>
           Run env options =
             (fst (InitLogger options) @ t1 @ [StartLog env options] @ t2
              @ [EvMerge coveraDatas, EvMergeFileCoverage merged], Inl e)))
   \<and> (Aggregated (fst (Run env options)) \<noteq> [] \<longrightarrow> IsAggregateByFileModeEnabled options)
   \<and> FileLineStatus (CoverageDataMerger_MergeFileCoverage d) p n = FileLineStatus d p n
   \<and> (FileLineStatus d p n = Some True) =
       (\<exists>f\<in>set (AllFiles d). GetFilePath f = p
          \<and> (\<exists>l\<in>set (GetLines f). GetLineNumber l = n \<and> HasBeenExecuted l))
   \<and> (FileLineStatus d p n = None) =
       (\<forall>f\<in>set (AllFiles d). GetFilePath f = p
          \<longrightarrow> (\<forall>l\<in>set (GetLines f). GetLineNumber l \<noteq> n))
   \<and> distinct (map GetFilePath (AllFiles (CoverageDataMerger_MergeFileCoverage d)))
   \<and> set (map GetFilePath (AllFiles (CoverageDataMerger_MergeFileCoverage d)))
       = set (map GetFilePath (AllFiles d))
   \<and> (\<forall>f\<in>set (AllFiles (CoverageDataMerger_MergeFileCoverage d)).
         distinct (map GetLineNumber (GetLines f)))
   \<and> GetExitCode (CoverageDataMerger_MergeFileCoverage d) = GetExitCode d"
proof -
  have code: "Aggregated (fst (Run env options)) =
        (if IsAggregateByFileModeEnabled options then [merged] else [])
      \<and> (merged \<in> set (Aggregated (fst (Run env options)))) = IsAggregateByFileModeEnabled options
      \<and> (\<not> IsAggregateByFileModeEnabled options \<longrightarrow>
           prefix
             (fst (InitLogger options) @ t1 @ [StartLog env options] @ t2
              @ [EvMerge coveraDatas] @ fst (Export env options merged))
             (fst (Run env options)))
      \<and> (IsAggregateByFileModeEnabled options \<and> MergeFileCoverage env merged = Inr aggregated \<longrightarrow>
           prefix
             (fst (InitLogger options) @ t1 @ [StartLog env options] @ t2
              @ [EvMerge coveraDatas, EvMergeFileCoverage merged]
              @ fst (Export env options aggregated))
             (fst (Run env options)))
      \<and> (IsAggregateByFileModeEnabled options \<and> MergeFileCoverage env merged = Inl e \<longrightarrow>
           Run env options =
             (fst (InitLogger options) @ t1 @ [StartLog env options] @ t2
              @ [EvMerge coveraDatas, EvMergeFileCoverage merged], Inl e))"
    if h: "LoadInputCoverageDatas env options = (t1, Inr loaded)"
      "RunTarget env options loaded = (t2, Inr (exitCode, coveraDatas))"
      "Merge env coveraDatas = Inr merged"
  proof -
    note r = Run_after_merge [OF h]
    have a: "Aggregated (fst (Run env options)) =
        (if IsAggregateByFileModeEnabled options then [merged] else [])"
      using h by (rule Run_Aggregated)
    have b: "prefix
             (fst (InitLogger options) @ t1 @ [StartLog env options] @ t2
              @ [EvMerge coveraDatas] @ fst (Export env options merged))
             (fst (Run env options))"
      if "\<not> IsAggregateByFileModeEnabled options"
      using that unfolding r by (simp add: Aggregate_eq fst_then_do split: sum.splits)
    have c: "prefix
             (fst (InitLogger options) @ t1 @ [StartLog env options] @ t2
              @ [EvMerge coveraDatas, EvMergeFileCoverage merged]
              @ fst (Export env options aggregated))
             (fst (Run env options))"
      if "IsAggregateByFileModeEnabled options" "MergeFileCoverage env merged = Inr aggregated"
      using that unfolding r by (simp add: Aggregate_eq fst_then_do split: sum.splits)
    have d: "Run env options =
             (fst (InitLogger options) @ t1 @ [StartLog env options] @ t2
              @ [EvMerge coveraDatas, EvMergeFileCoverage merged], Inl e)"
      if "IsAggregateByFileModeEnabled options" "MergeFileCoverage env merged = Inl e"
      using that unfolding r by (simp add: Aggregate_eq)
    show ?thesis
      using a b c d by simp
  qed
  have flag: "IsAggregateByFileModeEnabled options" if "Aggregated (fst (Run env options)) \<noteq> []"
    using that by (rule Run_Aggregated_flag)
  have keyed: "\<forall>f\<in>set (AllFiles (CoverageDataMerger_MergeFileCoverage d)).
         distinct (map GetLineNumber (GetLines f))"
    by (blast intro: MergeFileCoverage_lines_keyed)
  have ec: "GetExitCode (CoverageDataMerger_MergeFileCoverage d) = GetExitCode d"
    by (simp add: CoverageDataMerger_MergeFileCoverage_def)
  have t: "(FileLineStatus d p n = Some True) =
       (\<exists>f\<in>set (AllFiles d). GetFilePath f = p
          \<and> (\<exists>l\<in>set (GetLines f). GetLineNumber l = n \<and> HasBeenExecuted l))"
    unfolding FileLineStatus_def by (rule FilesStatus_Some_True)
  have n: "(FileLineStatus d p n = None) =
       (\<forall>f\<in>set (AllFiles d). GetFilePath f = p
          \<longrightarrow> (\<forall>l\<in>set (GetLines f). GetLineNumber l \<noteq> n))"
    unfolding FileLineStatus_def by (rule FilesStatus_None)
  have code': "LoadInputCoverageDatas env options = (t1, Inr loaded)
      \<and> RunTarget env options loaded = (t2, Inr (exitCode, coveraDatas))
      \<and> Merge env coveraDatas = Inr merged \<longrightarrow>
      Aggregated (fst (Run env options)) =
        (if IsAggregateByFileModeEnabled options then [merged] else [])
      \<and> (merged \<in> set (Aggregated (fst (Run env options)))) = IsAggregateByFileModeEnabled options
      \<and> (\<not> IsAggregateByFileModeEnabled options \<longrightarrow>
           prefix
             (fst (InitLogger options) @ t1 @ [StartLog env options] @ t2
              @ [EvMerge coveraDatas] @ fst (Export env options merged))
             (fst (Run env options)))
      \<and> (IsAggregateByFileModeEnabled options \<and> MergeFileCoverage env merged = Inr aggregated \<longrightarrow>
           prefix
             (fst (InitLogger options) @ t1 @ [StartLog env options] @ t2
              @ [EvMerge coveraDatas, EvMergeFileCoverage merged]
              @ fst (Export env options aggregated))
             (fst (Run env options)))
      \<and> (IsAggregateByFileModeEnabled options \<and> MergeFileCoverage env merged = Inl e \<longrightarrow>
           Run env options =
             (fst (InitLogger options) @ t1 @ [StartLog env options] @ t2
              @ [EvMerge coveraDatas, EvMergeFileCoverage merged], Inl e))"
    using code by (intro impI) (elim conjE)
  have flag': "Aggregated (fst (Run env options)) \<noteq> [] \<longrightarrow> IsAggregateByFileModeEnabled options"
    using flag by (intro impI)
  note spec = FileLineStatus_MergeFileCoverage [of d p n] t n
    MergeFileCoverage_collapsed [of d] MergeFileCoverage_paths [of d] keyed ec
  show ?thesis
    by (intro conjI code' flag' spec)
qed

theorem merge_file_coverage_iff_aggregate_by_file_witness:
  "LoadInputCoverageDatas ex_aggregating_env ex_run_options =
     ([EvLog Info [StrItem ''Load coverage file: '', StrItem ''a.cov''],
       EvDeserialize ''a.cov'' ''Cannot extract coverage data from a.cov''], Inr [ex_coverage 0])
   \<and> RunTarget ex_aggregating_env ex_run_options [ex_coverage 0] =
       ([EvRunCoverage (MakeRunCoverageSettings ex_run_options (ex_target ''C:/dev/Test.exe''))],
        Inr (3, [ex_coverage 0, ex_coverage 3]))
   \<and> Merge ex_aggregating_env [ex_coverage 0, ex_coverage 3]
       = Inr (ex_merge [ex_coverage 0, ex_coverage 3])
   \<and> IsAggregateByFileModeEnabled ex_run_options
   \<and> MergeFileCoverage ex_aggregating_env (ex_merge [ex_coverage 0, ex_coverage 3])
       = Inr ex_aggregated
   \<and> Aggregated (fst (Run ex_aggregating_env ex_run_options))
       = [ex_merge [ex_coverage 0, ex_coverage 3]]
   \<and> prefix
       [EvInitConsoleAndFileLog ''LastCoverageResults.log'',
        EvSetLoggerMinSeverity Info,
        EvLog Info [StrItem ''Load coverage file: '', StrItem ''a.cov''],
        EvDeserialize ''a.cov'' ''Cannot extract coverage data from a.cov'',
        EvLog Info [StrItem ''Start Program:'', StrItem (CHR 0x0A # ''options'')],
        EvRunCoverage (MakeRunCoverageSettings ex_run_options (ex_target ''C:/dev/Test.exe'')),
        EvMerge [ex_coverage 0, ex_coverage 3],
        EvMergeFileCoverage (ex_merge [ex_coverage 0, ex_coverage 3]),
        EvExport Html ex_aggregated ''CoverageReport-Test'',
        EvExport Binary ex_aggregated ''out.cov'']
       (fst (Run ex_aggregating_env ex_run_options))
   \<and> map GetFilePath (AllFiles (ex_merge [ex_coverage 0, ex_coverage 3]))
       = [''main.cpp'', ''main.cpp'']
   \<and> map GetFilePath (AllFiles ex_aggregated) = [''main.cpp'']
   \<and> FileLineStatus ex_other ''main.cpp'' 3 = Some False
   \<and> FileLineStatus (CoverageDataMerger_MergeFileCoverage ex_other) ''main.cpp'' 3 = Some False
   \<and> map GetFilePath (AllFiles ex_other) = [''main.cpp'', ''main.cpp'']
   \<and> distinct (map GetFilePath (AllFiles (CoverageDataMerger_MergeFileCoverage ex_other)))"
proof -
  have l: "LoadInputCoverageDatas ex_aggregating_env ex_run_options =
     ([EvLog Info [StrItem ''Load coverage file: '', StrItem ''a.cov''],
       EvDeserialize ''a.cov'' ''Cannot extract coverage data from a.cov''], Inr [ex_coverage 0])"
    by (simp add: ex_aggregating_env_def ex_run_options_def ex_options_def ex_env_def
        LoadInputCoverageDatas_def call_def ret_def)
  have r: "RunTarget ex_aggregating_env ex_run_options [ex_coverage 0] =
       ([EvRunCoverage (MakeRunCoverageSettings ex_run_options (ex_target ''C:/dev/Test.exe''))],
        Inr (3, [ex_coverage 0, ex_coverage 3]))"
    by (simp add: RunTarget_def ex_StartInfo ex_aggregating_env_def ex_env_def call_def ret_def)
  have m: "Merge ex_aggregating_env [ex_coverage 0, ex_coverage 3]
       = Inr (ex_merge [ex_coverage 0, ex_coverage 3])"
    by (simp add: ex_aggregating_env_def ex_env_def)
  have f: "IsAggregateByFileModeEnabled ex_run_options"
    by (simp add: ex_run_options_def ex_options_def)
  have g: "CoverageDataMerger_MergeFileCoverage (ex_merge [ex_coverage 0, ex_coverage 3])
       = ex_aggregated"
    by (simp add: CoverageDataMerger_MergeFileCoverage_def AllFiles_def AggregatedLines_def
        ex_merge_def ex_coverage_def ex_aggregated_def)
  have a: "MergeFileCoverage ex_aggregating_env (ex_merge [ex_coverage 0, ex_coverage 3])
       = Inr ex_aggregated"
    by (simp add: ex_aggregating_env_def g)
  have x: "fst (Export ex_aggregating_env ex_run_options c) =
     [EvExport Html c ''CoverageReport-Test'', EvExport Binary c ''out.cov'']" for c
    by (simp add: ex_aggregating_env_def ex_run_options_def ex_defs run_defs)
  have i: "fst (InitLogger ex_run_options) =
     [EvInitConsoleAndFileLog ''LastCoverageResults.log'', EvSetLoggerMinSeverity Info]"
    by (simp add: InitLogger_eq LoggerMinSeverity_def ex_run_options_def ex_options_def)
  have s: "StartLog ex_aggregating_env ex_run_options =
     EvLog Info [StrItem ''Start Program:'', StrItem (CHR 0x0A # ''options'')]"
    by (simp add: StartLog_def ex_aggregating_env_def ex_env_def)
  have p1: "map GetFilePath (AllFiles (ex_merge [ex_coverage 0, ex_coverage 3]))
       = [''main.cpp'', ''main.cpp'']"
    by (simp add: AllFiles_def ex_merge_def ex_coverage_def)
  have p2: "map GetFilePath (AllFiles ex_aggregated) = [''main.cpp'']"
    by (simp add: AllFiles_def ex_aggregated_def)
  have p3: "map GetFilePath (AllFiles ex_other) = [''main.cpp'', ''main.cpp'']"
    by (simp add: AllFiles_def ex_other_def)
  have st: "FileLineStatus ex_other ''main.cpp'' 3 = Some False"
    by (simp add: status_defs)
  note c6 = merge_file_coverage_iff_aggregate_by_file
    [of ex_aggregating_env ex_run_options _ "[ex_coverage 0]" _ 3 "[ex_coverage 0, ex_coverage 3]"
      "ex_merge [ex_coverage 0, ex_coverage 3]" ex_aggregated _ ex_other "''main.cpp''" 3]
  note code = c6 [THEN conjunct1, rule_format, OF conjI [OF l conjI [OF r m]]]
  have ag: "Aggregated (fst (Run ex_aggregating_env ex_run_options))
       = [ex_merge [ex_coverage 0, ex_coverage 3]]"
    using code [THEN conjunct1] f by simp
  have pr: "prefix
       [EvInitConsoleAndFileLog ''LastCoverageResults.log'',
        EvSetLoggerMinSeverity Info,
        EvLog Info [StrItem ''Load coverage file: '', StrItem ''a.cov''],
        EvDeserialize ''a.cov'' ''Cannot extract coverage data from a.cov'',
        EvLog Info [StrItem ''Start Program:'', StrItem (CHR 0x0A # ''options'')],
        EvRunCoverage (MakeRunCoverageSettings ex_run_options (ex_target ''C:/dev/Test.exe'')),
        EvMerge [ex_coverage 0, ex_coverage 3],
        EvMergeFileCoverage (ex_merge [ex_coverage 0, ex_coverage 3]),
        EvExport Html ex_aggregated ''CoverageReport-Test'',
        EvExport Binary ex_aggregated ''out.cov'']
       (fst (Run ex_aggregating_env ex_run_options))"
    using code [THEN conjunct2, THEN conjunct2, THEN conjunct2, THEN conjunct1] f a
    by (simp add: i s x)
  have st': "FileLineStatus (CoverageDataMerger_MergeFileCoverage ex_other) ''main.cpp'' 3
       = Some False"
    using c6 [THEN conjunct2, THEN conjunct2, THEN conjunct1] st by simp
  have di: "distinct (map GetFilePath (AllFiles (CoverageDataMerger_MergeFileCoverage ex_other)))"
    using c6 [THEN conjunct2, THEN conjunct2, THEN conjunct2, THEN conjunct2, THEN conjunct2,
        THEN conjunct1] .
  show ?thesis
    using l r m f a ag pr p1 p2 p3 st st' di by simp
qed

subsection \<open>Merge\<close>

text \<open>
  C7. On the model of \<^verbatim>\<open>Merge\<close> written from its specification, the hit status of every
  (module, file, line) in the merged result follows the rule that a line is hit if it is
  hit in some input, and is absent if it is absent from all. Hence the per-line hit status
  of a merge is the same for every permutation of the inputs (commutativity), does not
  depend on how the inputs are grouped (associativity), and merging a run with itself
  gives the hit status of the run (idempotence).
\<close>

theorem merge_commutative_associative_idempotent:
  "(mset ds = mset ds' \<longrightarrow>
      HitStatus (CoverageDataMerger_Merge ds) = HitStatus (CoverageDataMerger_Merge ds'))
   \<and> HitStatus (CoverageDataMerger_Merge [a, b]) = HitStatus (CoverageDataMerger_Merge [b, a])
   \<and> HitStatus (CoverageDataMerger_Merge [CoverageDataMerger_Merge [a, b], c])
       = HitStatus (CoverageDataMerger_Merge [a, CoverageDataMerger_Merge [b, c]])
   \<and> HitStatus (CoverageDataMerger_Merge [a, a]) = HitStatus a
   \<and> HitStatus (CoverageDataMerger_Merge [a]) = HitStatus a
   \<and> (HitStatus (CoverageDataMerger_Merge ds) mp p n = Some True)
       = (\<exists>d\<in>set ds. HitStatus d mp p n = Some True)
   \<and> (HitStatus (CoverageDataMerger_Merge ds) mp p n = None)
       = (\<forall>d\<in>set ds. HitStatus d mp p n = None)"
proof -
  have perm: "HitStatus (CoverageDataMerger_Merge ds) = HitStatus (CoverageDataMerger_Merge ds')"
    if "mset ds = mset ds'"
  proof -
    from that have "set ds = set ds'" by (rule mset_eq_setD)
    then show ?thesis
      by (intro ext) (simp add: HitStatus_Merge JoinAll_set)
  qed
  have comm: "HitStatus (CoverageDataMerger_Merge [a, b]) = HitStatus (CoverageDataMerger_Merge [b, a])"
    by (intro ext) (simp add: HitStatus_Merge osup_commute)
  have assoc: "HitStatus (CoverageDataMerger_Merge [CoverageDataMerger_Merge [a, b], c])
       = HitStatus (CoverageDataMerger_Merge [a, CoverageDataMerger_Merge [b, c]])"
    by (intro ext) (simp add: HitStatus_Merge osup_assoc)
  have idem: "HitStatus (CoverageDataMerger_Merge [a, a]) = HitStatus a"
    by (intro ext) (simp add: HitStatus_Merge)
  have one: "HitStatus (CoverageDataMerger_Merge [a]) = HitStatus a"
    by (intro ext) (simp add: HitStatus_Merge)
  have hit: "(HitStatus (CoverageDataMerger_Merge ds) mp p n = Some True)
       = (\<exists>d\<in>set ds. HitStatus d mp p n = Some True)"
    by (simp add: HitStatus_Merge JoinAll_map_Some_True)
  have none: "(HitStatus (CoverageDataMerger_Merge ds) mp p n = None)
       = (\<forall>d\<in>set ds. HitStatus d mp p n = None)"
    by (simp add: HitStatus_Merge JoinAll_map_None)
  show ?thesis
    using perm comm assoc idem one hit none by blast
qed

theorem merge_commutative_associative_idempotent_witness:
  "mset [ex_coverage 3, ex_other] = mset [ex_other, ex_coverage 3]
   \<and> HitStatus (CoverageDataMerger_Merge [ex_coverage 3, ex_other])
       = HitStatus (CoverageDataMerger_Merge [ex_other, ex_coverage 3])
   \<and> HitStatus (ex_coverage 3) ''Test.exe'' ''main.cpp'' 2 = Some False
   \<and> HitStatus ex_other ''Test.exe'' ''main.cpp'' 2 = Some True
   \<and> HitStatus (CoverageDataMerger_Merge [ex_coverage 3, ex_other]) ''Test.exe'' ''main.cpp'' 2
       = Some True
   \<and> HitStatus (CoverageDataMerger_Merge [ex_coverage 3, ex_other]) ''Test.exe'' ''main.cpp'' 3
       = None"
proof -
  have p: "mset [ex_coverage 3, ex_other] = mset [ex_other, ex_coverage 3]"
    by (simp add: add_mset_commute)
  have a: "HitStatus (ex_coverage 3) ''Test.exe'' ''main.cpp'' 2 = Some False"
    by (simp add: status_defs)
  have b: "HitStatus ex_other ''Test.exe'' ''main.cpp'' 2 = Some True"
    by (simp add: status_defs)
  have a3: "HitStatus (ex_coverage 3) ''Test.exe'' ''main.cpp'' 3 = None"
    by (simp add: status_defs)
  have b3: "HitStatus ex_other ''Test.exe'' ''main.cpp'' 3 = None"
    by (simp add: status_defs)
  note c7 = merge_commutative_associative_idempotent
    [of "[ex_coverage 3, ex_other]" "[ex_other, ex_coverage 3]" _ _ _ "''Test.exe''" "''main.cpp''" 2]
  note c7' = merge_commutative_associative_idempotent
    [of "[ex_coverage 3, ex_other]" "[ex_other, ex_coverage 3]" _ _ _ "''Test.exe''" "''main.cpp''" 3]
  have q: "HitStatus (CoverageDataMerger_Merge [ex_coverage 3, ex_other])
       = HitStatus (CoverageDataMerger_Merge [ex_other, ex_coverage 3])"
    using c7 [THEN conjunct1] p by simp
  have h: "HitStatus (CoverageDataMerger_Merge [ex_coverage 3, ex_other]) ''Test.exe'' ''main.cpp'' 2
       = Some True"
    using c7 [THEN conjunct2, THEN conjunct2, THEN conjunct2, THEN conjunct2,
        THEN conjunct2, THEN conjunct1] b
    by simp
  have n: "HitStatus (CoverageDataMerger_Merge [ex_coverage 3, ex_other]) ''Test.exe'' ''main.cpp'' 3
       = None"
    using c7' [THEN conjunct2, THEN conjunct2, THEN conjunct2, THEN conjunct2,
        THEN conjunct2, THEN conjunct2] a3 b3
    by simp
  show ?thesis
    using p q a b h n by simp
qed

end
